theory Spec2Isabelle
  imports Main "HOL-Library.Word"
begin

unbundle bit_operations_syntax

section \<open>The intermediate program\<close>

text \<open>
  The assembler's output and the virtual machine's input is a dictionary with the keys
  \<open>meta\<close>, \<open>instructions\<close>, \<open>tick\<close>, \<open>start\<close>, \<open>data\<close> and \<open>source\<close>. An instruction is
  the list \<open>[name, args]\<close>, or \<open>[name, args, line]\<close> in debug mode; an argument is a Python
  \<open>int\<close> or a \<open>str\<close> (the text of the operand token, \<open>$5\<close> for an address).
\<close>

datatype argument = IntArg int | StrArg string

record instruction =
  ins_name :: string
  ins_args :: "argument list"
  ins_line :: "int option"

record meta_variables =
  meta_memory :: int
  meta_width :: int
  meta_height :: int
  meta_tickrate :: int

text \<open>A data entry is the list \<open>[address, values]\<close>; its address is never negative.\<close>

type_synonym data_entry = "nat \<times> int list"

text \<open>
  The key \<open>data\<close> can be missing, or hold \<open>None\<close> (what \<open>parse_data\<close> returns when it gives
  up), or hold a list of entries. The key \<open>data_entry_count\<close> only exists in dictionaries that
  come out of the binary decoder.
\<close>

datatype data_field = DataAbsent | DataNone | DataList "data_entry list"

record program_data =
  meta :: meta_variables
  instructions :: "instruction list"
  tick :: "int option"
  start :: "int option"
  data :: data_field
  source :: "string list option"
  data_entry_count :: "int option"

section \<open>Python primitives\<close>

text \<open>The exceptions that the program raises or lets through.\<close>

datatype exception =
    IndexError
  | KeyError string
  | ValueError
  | TypeError
  | StopIteration
  | LexingError
  | G1PyException
  | ImageError
  | ConstructError

text \<open>
  \<open>xs[i]\<close> on a Python list: a negative index counts from the end, and an index outside
  \<open>-len(xs) \<le> i < len(xs)\<close> raises \<open>IndexError\<close> (here \<open>None\<close>).
\<close>

definition py_index :: "'a list \<Rightarrow> int \<Rightarrow> 'a option" where
  "py_index xs i =
     (if 0 \<le> i \<and> i < int (length xs) then Some (xs ! nat i)
      else if i < 0 \<and> - int (length xs) \<le> i then Some (xs ! nat (int (length xs) + i))
      else None)"

definition ord :: "char \<Rightarrow> nat" where
  "ord c = of_char c"

definition is_digit :: "char \<Rightarrow> bool" where
  "is_digit c = (48 \<le> ord c \<and> ord c \<le> 57)"

definition digit_value :: "char \<Rightarrow> nat" where
  "digit_value c = ord c - 48"

definition digits_to_nat :: "string \<Rightarrow> nat" where
  "digits_to_nat s = foldl (\<lambda>a c. 10 * a + digit_value c) 0 s"

text \<open>
  \<open>int(s)\<close> on a string: an optional sign followed by one or more ASCII decimal digits;
  anything else is a \<open>ValueError\<close> (here \<open>None\<close>). Every string that the lexer below can put
  into a token has this shape or is rejected by Python as well; the blank-stripping and
  digit-grouping underscores that Python also accepts cannot come out of the lexer and are
  treated as errors.
\<close>

definition py_int_digits :: "string \<Rightarrow> int option" where
  "py_int_digits s = (if s \<noteq> [] \<and> list_all is_digit s then Some (int (digits_to_nat s)) else None)"

definition py_int :: "string \<Rightarrow> int option" where
  "py_int s =
     (case s of
        [] \<Rightarrow> None
      | c # r \<Rightarrow>
          if c = CHR ''-'' then map_option uminus (py_int_digits r)
          else if c = CHR ''+'' then py_int_digits r
          else py_int_digits s)"

section \<open>The virtual machine\<close>

text \<open>
  The drawing surface and the standard output are outside the machine: the model records the
  calls made on them, in order.
\<close>

datatype draw_call =
    SetAt int int "int \<times> int \<times> int"
  | DrawLine "int \<times> int \<times> int" int int int int
  | DrawRect "int \<times> int \<times> int" int int int int

record program_context =
  program_data :: program_data
  memory :: "int list"
  program_counter :: int
  color :: "int \<times> int \<times> int"
  surface :: "draw_call list"
  printed :: "int list"

text \<open>
  The function \<open>error\<close> prints \<open>RUNTIME ERROR:\<close> and its message, then the source line when
  debug information is there, and ends the process (with \<open>sys.exit\<close>, or with the exception of
  the lookup when the debug information has no line for the instruction). The failure
  \<open>RuntimeError\<close> stands for that end: it keeps the message and the context at that moment. The
  other failures are the exceptions that nothing catches.
\<close>

datatype runtime_message = CannotGet int | CannotSet int | DivisionByZero

datatype failure =
    RuntimeError runtime_message
  | Uncaught exception

type_synonym 'a result = "(failure \<times> program_context) + 'a"

definition error :: "program_context \<Rightarrow> runtime_message \<Rightarrow> 'a result" where
  "error ctx message = Inl (RuntimeError message, ctx)"

definition memget :: "program_context \<Rightarrow> int \<Rightarrow> int result" where
  "memget ctx index =
     (if index < 0 \<or> index \<ge> int (length (memory ctx)) then error ctx (CannotGet index)
      else Inr (memory ctx ! nat index))"

definition memset :: "program_context \<Rightarrow> int \<Rightarrow> int \<Rightarrow> program_context result" where
  "memset ctx index v =
     (if index < 0 \<or> index \<ge> int (length (memory ctx)) then error ctx (CannotSet index)
      else Inr (ctx\<lparr>memory := (memory ctx)[nat index := v]\<rparr>))"

definition parse_argument :: "program_context \<Rightarrow> argument \<Rightarrow> int result" where
  "parse_argument ctx a =
     (case a of
        IntArg n \<Rightarrow> Inr n
      | StrArg s \<Rightarrow>
          (case py_int (drop 1 s) of
             None \<Rightarrow> Inl (Uncaught ValueError, ctx)
           | Some i \<Rightarrow> memget ctx i))"

fun parse_arguments :: "program_context \<Rightarrow> argument list \<Rightarrow> int list result" where
  "parse_arguments ctx [] = Inr []"
| "parse_arguments ctx (a # as) =
     (case parse_argument ctx a of
        Inl e \<Rightarrow> Inl e
      | Inr v \<Rightarrow>
          (case parse_arguments ctx as of
             Inl e \<Rightarrow> Inl e
           | Inr vs \<Rightarrow> Inr (v # vs)))"

text \<open>
  An instruction function returns the new program counter (only \<open>jmp\<close> does) or \<open>None\<close>,
  together with the context it has mutated. Reading \<open>args[i]\<close> beyond the list raises
  \<open>IndexError\<close>.
\<close>

type_synonym ins_result = "(int option \<times> program_context) result"

definition returns_none :: "program_context result \<Rightarrow> ins_result" where
  "returns_none r = (case r of Inl e \<Rightarrow> Inl e | Inr ctx \<Rightarrow> Inr (None, ctx))"

definition py_bool :: "bool \<Rightarrow> int" where
  "py_bool b = (if b then 1 else 0)"

fun ins_mov :: "program_context \<Rightarrow> int list \<Rightarrow> ins_result" where
  "ins_mov ctx (a0 # a1 # _) = returns_none (memset ctx a0 a1)"
| "ins_mov ctx _ = Inl (Uncaught IndexError, ctx)"

fun ins_movp :: "program_context \<Rightarrow> int list \<Rightarrow> ins_result" where
  "ins_movp ctx (a0 # a1 # _) =
     (case memget ctx a1 of
        Inl e \<Rightarrow> Inl e
      | Inr v \<Rightarrow> returns_none (memset ctx a0 v))"
| "ins_movp ctx _ = Inl (Uncaught IndexError, ctx)"

fun ins_add :: "program_context \<Rightarrow> int list \<Rightarrow> ins_result" where
  "ins_add ctx (a0 # a1 # a2 # _) = returns_none (memset ctx a0 (a1 + a2))"
| "ins_add ctx _ = Inl (Uncaught IndexError, ctx)"

fun ins_sub :: "program_context \<Rightarrow> int list \<Rightarrow> ins_result" where
  "ins_sub ctx (a0 # a1 # a2 # _) = returns_none (memset ctx a0 (a1 - a2))"
| "ins_sub ctx _ = Inl (Uncaught IndexError, ctx)"

fun ins_mul :: "program_context \<Rightarrow> int list \<Rightarrow> ins_result" where
  "ins_mul ctx (a0 # a1 # a2 # _) = returns_none (memset ctx a0 (a1 * a2))"
| "ins_mul ctx _ = Inl (Uncaught IndexError, ctx)"

fun ins_div :: "program_context \<Rightarrow> int list \<Rightarrow> ins_result" where
  "ins_div ctx (a0 # a1 # a2 # _) =
     (if a2 = 0 then error ctx DivisionByZero
      else returns_none (memset ctx a0 (a1 div a2)))"
| "ins_div ctx _ = Inl (Uncaught IndexError, ctx)"

fun ins_mod :: "program_context \<Rightarrow> int list \<Rightarrow> ins_result" where
  "ins_mod ctx (a0 # a1 # a2 # _) =
     (if a2 = 0 then error ctx DivisionByZero
      else returns_none (memset ctx a0 (a1 mod a2)))"
| "ins_mod ctx _ = Inl (Uncaught IndexError, ctx)"

fun ins_less :: "program_context \<Rightarrow> int list \<Rightarrow> ins_result" where
  "ins_less ctx (a0 # a1 # a2 # _) = returns_none (memset ctx a0 (py_bool (a1 < a2)))"
| "ins_less ctx _ = Inl (Uncaught IndexError, ctx)"

fun ins_equal :: "program_context \<Rightarrow> int list \<Rightarrow> ins_result" where
  "ins_equal ctx (a0 # a1 # a2 # _) = returns_none (memset ctx a0 (py_bool (a1 = a2)))"
| "ins_equal ctx _ = Inl (Uncaught IndexError, ctx)"

fun ins_not :: "program_context \<Rightarrow> int list \<Rightarrow> ins_result" where
  "ins_not ctx (a0 # a1 # _) = returns_none (memset ctx a0 (py_bool (a1 = 0)))"
| "ins_not ctx _ = Inl (Uncaught IndexError, ctx)"

fun ins_jmp :: "program_context \<Rightarrow> int list \<Rightarrow> ins_result" where
  "ins_jmp ctx (a0 # a1 # _) = (if a1 \<noteq> 0 then Inr (Some a0, ctx) else Inr (None, ctx))"
| "ins_jmp ctx _ = Inl (Uncaught IndexError, ctx)"

fun ins_color :: "program_context \<Rightarrow> int list \<Rightarrow> ins_result" where
  "ins_color ctx (a0 # a1 # a2 # _) = Inr (None, ctx\<lparr>color := (a0, a1, a2)\<rparr>)"
| "ins_color ctx _ = Inl (Uncaught IndexError, ctx)"

fun ins_point :: "program_context \<Rightarrow> int list \<Rightarrow> ins_result" where
  "ins_point ctx (a0 # a1 # _) =
     Inr (None, ctx\<lparr>surface := surface ctx @ [SetAt a0 a1 (color ctx)]\<rparr>)"
| "ins_point ctx _ = Inl (Uncaught IndexError, ctx)"

fun ins_line :: "program_context \<Rightarrow> int list \<Rightarrow> ins_result" where
  "ins_line ctx (a0 # a1 # a2 # a3 # _) =
     Inr (None, ctx\<lparr>surface := surface ctx @ [DrawLine (color ctx) a0 a1 a2 a3]\<rparr>)"
| "ins_line ctx _ = Inl (Uncaught IndexError, ctx)"

fun ins_rect :: "program_context \<Rightarrow> int list \<Rightarrow> ins_result" where
  "ins_rect ctx (a0 # a1 # a2 # a3 # _) =
     Inr (None, ctx\<lparr>surface := surface ctx @ [DrawRect (color ctx) a0 a1 a2 a3]\<rparr>)"
| "ins_rect ctx _ = Inl (Uncaught IndexError, ctx)"

fun ins_log :: "program_context \<Rightarrow> int list \<Rightarrow> ins_result" where
  "ins_log ctx (a0 # _) = Inr (None, ctx\<lparr>printed := printed ctx @ [a0]\<rparr>)"
| "ins_log ctx _ = Inl (Uncaught IndexError, ctx)"

subsection \<open>The instruction tables\<close>

definition INSTRUCTIONS :: "string list" where
  "INSTRUCTIONS =
     [''mov'', ''movp'', ''add'', ''sub'', ''mul'', ''div'', ''mod'', ''less'', ''equal'',
      ''not'', ''jmp'', ''color'', ''point'', ''line'', ''rect'', ''log'']"

definition ARGUMENT_COUNTS :: "nat list" where
  "ARGUMENT_COUNTS = [2, 2, 3, 3, 3, 3, 3, 3, 3, 2, 2, 3, 2, 4, 4, 1]"

definition ARGUMENT_COUNT_LOOKUP :: "string \<rightharpoonup> nat" where
  "ARGUMENT_COUNT_LOOKUP = map_of (zip INSTRUCTIONS ARGUMENT_COUNTS)"

definition INSTRUCTION_FUNCTIONS :: "(program_context \<Rightarrow> int list \<Rightarrow> ins_result) list" where
  "INSTRUCTION_FUNCTIONS =
     [ins_mov, ins_movp,
      ins_add, ins_sub, ins_mul, ins_div, ins_mod,
      ins_less, ins_equal, ins_not,
      ins_jmp,
      ins_color, ins_point, ins_line, ins_rect,
      ins_log]"

definition INSTRUCTION_LOOKUP :: "string \<rightharpoonup> (program_context \<Rightarrow> int list \<Rightarrow> ins_result)" where
  "INSTRUCTION_LOOKUP = map_of (zip INSTRUCTIONS INSTRUCTION_FUNCTIONS)"

subsection \<open>The fetch-execute loop\<close>

text \<open>
  One turn of the \<open>while\<close> loop of \<open>start_program_thread\<close>, with \<open>step\<close> false (the step mode
  only prints and reads debugger commands between two instructions).
\<close>

definition loop_body :: "bool \<Rightarrow> program_context \<Rightarrow> program_context result" where
  "loop_body disable_log ctx =
     (case py_index (instructions (program_data ctx)) (program_counter ctx) of
        None \<Rightarrow> Inl (Uncaught IndexError, ctx)
      | Some ins \<Rightarrow>
          if disable_log \<and> ins_name ins = ''log'' then
            Inr (ctx\<lparr>program_counter := program_counter ctx + 1\<rparr>)
          else
            (case parse_arguments ctx (ins_args ins) of
               Inl e \<Rightarrow> Inl e
             | Inr parsed_arguments \<Rightarrow>
                 (case INSTRUCTION_LOOKUP (ins_name ins) of
                    None \<Rightarrow> Inl (Uncaught (KeyError (ins_name ins)), ctx)
                  | Some f \<Rightarrow>
                      (case f ctx parsed_arguments of
                         Inl e \<Rightarrow> Inl e
                       | Inr (new_program_counter, ctx') \<Rightarrow>
                           (case new_program_counter of
                              Some target \<Rightarrow> Inr (ctx'\<lparr>program_counter := target\<rparr>)
                            | None \<Rightarrow>
                                Inr (ctx'\<lparr>program_counter := program_counter ctx' + 1\<rparr>))))))"

text \<open>The loop can run forever: \<open>None\<close> is the run that never returns.\<close>

partial_function (option) program_loop :: "bool \<Rightarrow> program_context \<Rightarrow> program_context result option" where
  "program_loop disable_log ctx =
     (if program_counter ctx < int (length (instructions (program_data ctx))) then
        (case loop_body disable_log ctx of
           Inl e \<Rightarrow> Some (Inl e)
         | Inr ctx' \<Rightarrow> program_loop disable_log ctx')
      else Some (Inr ctx))"

definition start_program_thread :: "program_context \<Rightarrow> int \<Rightarrow> bool \<Rightarrow> program_context result option" where
  "start_program_thread ctx index disable_log =
     program_loop disable_log (ctx\<lparr>program_counter := index\<rparr>)"

subsection \<open>Setting up and driving the machine\<close>

text \<open>\<open>xs[a:b] = ys\<close> for indices that are not negative.\<close>

definition slice_assign :: "'a list \<Rightarrow> nat \<Rightarrow> nat \<Rightarrow> 'a list \<Rightarrow> 'a list" where
  "slice_assign xs a b ys = take a xs @ ys @ drop (max a b) xs"

fun load_data :: "int \<Rightarrow> int list \<Rightarrow> data_entry list \<Rightarrow> int list option" where
  "load_data amount_memory mem [] = Some mem"
| "load_data amount_memory mem ((address, data_numbers) # rest) =
     (let upper_bound = address + length data_numbers
      in if int upper_bound > amount_memory then None
         else load_data amount_memory (slice_assign mem address upper_bound data_numbers) rest)"

definition ProgramContext :: "program_data \<Rightarrow> data_entry list option \<Rightarrow> exception + program_context" where
  "ProgramContext pd entries =
     (let amount_memory = meta_memory (meta pd);
          mem = replicate (nat amount_memory) 0
      in case (case entries of None \<Rightarrow> Some mem | Some es \<Rightarrow> load_data amount_memory mem es) of
           None \<Rightarrow> Inl G1PyException
         | Some mem' \<Rightarrow>
             Inr \<lparr>program_data = pd, memory = mem', program_counter = 0, color = (0, 0, 0),
                  surface = [], printed = []\<rparr>)"

text \<open>The eight keys that \<open>update_reserved_memory\<close> asks pygame about.\<close>

record pressed_keys =
  K_RETURN :: bool
  K_RSHIFT :: bool
  K_z :: bool
  K_x :: bool
  K_UP :: bool
  K_DOWN :: bool
  K_LEFT :: bool
  K_RIGHT :: bool

definition reserved_values :: "program_context \<Rightarrow> pressed_keys \<Rightarrow> int \<Rightarrow> int list" where
  "reserved_values ctx keys delta_ms =
     (let m = meta (program_data ctx)
      in [py_bool (K_RETURN keys), py_bool (K_RSHIFT keys), py_bool (K_z keys), py_bool (K_x keys),
          py_bool (K_UP keys), py_bool (K_DOWN keys), py_bool (K_LEFT keys), py_bool (K_RIGHT keys),
          meta_memory m, meta_width m, meta_height m, meta_tickrate m,
          delta_ms])"

definition update_reserved_memory :: "program_context \<Rightarrow> pressed_keys \<Rightarrow> int \<Rightarrow> program_context" where
  "update_reserved_memory ctx keys delta_ms =
     (let vals = reserved_values ctx keys delta_ms
      in ctx\<lparr>memory := slice_assign (memory ctx) 0 (length vals) vals\<rparr>)"

definition data_get :: "program_data \<Rightarrow> data_entry list option" where
  "data_get pd = (case data pd of DataList es \<Rightarrow> Some es | _ \<Rightarrow> None)"

text \<open>
  The function \<open>run\<close> up to its frame loop: it builds the context and, when the program has a
  \<open>start\<close> entry, refreshes the reserved cells and runs from there. Then every frame of the
  loop refreshes the reserved cells and runs from the \<open>tick\<close> entry.
\<close>

definition run_start :: "program_data \<Rightarrow> pressed_keys \<Rightarrow> bool \<Rightarrow> (exception + program_context result) option" where
  "run_start pd keys disable_log =
     (case ProgramContext pd (data_get pd) of
        Inl e \<Rightarrow> Some (Inl e)
      | Inr ctx \<Rightarrow>
          (case start pd of
             None \<Rightarrow> Some (Inr (Inr ctx))
           | Some index \<Rightarrow>
               map_option Inr
                 (start_program_thread (update_reserved_memory ctx keys 0) index disable_log)))"

definition run_frame :: "program_context \<Rightarrow> int \<Rightarrow> pressed_keys \<Rightarrow> int \<Rightarrow> bool \<Rightarrow> program_context result option" where
  "run_frame ctx tick_label_index keys delta_ms disable_log =
     start_program_thread (update_reserved_memory ctx keys delta_ms) tick_label_index disable_log"

section \<open>The assembler\<close>

subsection \<open>The lexer\<close>

text \<open>
  The lexer is built with rply from seven rules, and ignores single spaces. At each position it
  skips the spaces, then takes the first rule, in the order of their declaration, whose regular
  expression matches there; when none matches it raises \<open>LexingError\<close>. A token carries the
  rule's name, the matched text and the line number where it starts (its column is only used to
  print diagnostics).
\<close>

datatype token_kind = META_VARIABLE | NUMBER | ADDRESS | LABEL_NAME | NAME | COMMENT | NEWLINE

record token =
  tok_name :: token_kind
  tok_value :: string
  tok_lineno :: nat

definition newline :: char where
  "newline = CHR 0x0A"

text \<open>The character classes \<open>[A-z]\<close> and \<open>[A-z0-9_]\<close> (the underscore lies between Z and a).\<close>

definition in_A_z :: "char \<Rightarrow> bool" where
  "in_A_z c = (65 \<le> ord c \<and> ord c \<le> 122)"

definition in_A_z_0_9 :: "char \<Rightarrow> bool" where
  "in_A_z_0_9 c = (in_A_z c \<or> is_digit c \<or> c = CHR ''_'')"

definition at_least_one :: "nat \<Rightarrow> nat option" where
  "at_least_one k = (if 1 \<le> k then Some k else None)"

text \<open>
  \<open>match_rule kind c r\<close> matches the rule's expression at the start of \<open>c # r\<close>: the result is
  the number of characters of \<open>r\<close> that the match takes after \<open>c\<close>.
\<close>

fun match_rule :: "token_kind \<Rightarrow> char \<Rightarrow> string \<Rightarrow> nat option" where
  "match_rule META_VARIABLE c r =
     (if c = CHR ''#'' then at_least_one (length (takeWhile in_A_z r)) else None)"
| "match_rule NUMBER c r =
     (if c = CHR ''-'' then at_least_one (length (takeWhile is_digit r))
      else if is_digit c then Some (length (takeWhile is_digit r))
      else None)"
| "match_rule ADDRESS c r =
     (if c = CHR ''$'' then at_least_one (length (takeWhile is_digit r)) else None)"
| "match_rule LABEL_NAME c r =
     (let k = length (takeWhile in_A_z_0_9 r)
      in if in_A_z_0_9 c \<and> take 1 (drop k r) = '':'' then Some (k + 1) else None)"
| "match_rule NAME c r =
     (if in_A_z c \<or> c = CHR ''_'' then Some (length (takeWhile in_A_z_0_9 r)) else None)"
| "match_rule COMMENT c r =
     (let k = length (takeWhile (\<lambda>x. x \<noteq> CHR '')'') r)
      in if c = CHR ''('' \<and> drop k r \<noteq> [] then Some (k + 1) else None)"
| "match_rule NEWLINE c r = (if c = newline then Some 0 else None)"

definition lexer_rules :: "token_kind list" where
  "lexer_rules = [META_VARIABLE, NUMBER, ADDRESS, LABEL_NAME, NAME, COMMENT, NEWLINE]"

fun first_match :: "token_kind list \<Rightarrow> char \<Rightarrow> string \<Rightarrow> (token_kind \<times> nat) option" where
  "first_match [] c r = None"
| "first_match (kind # kinds) c r =
     (case match_rule kind c r of
        Some n \<Rightarrow> Some (kind, n)
      | None \<Rightarrow> first_match kinds c r)"

text \<open>
  The stream of tokens is lazy: the model gives the tokens that come out before the stream
  ends, and the exception that ends it (\<open>StopIteration\<close> at the end of the text,
  \<open>LexingError\<close> where no rule matches).
\<close>

type_synonym token_stream = "token list \<times> exception"

fun lex_from :: "nat \<Rightarrow> string \<Rightarrow> token_stream" where
  "lex_from lineno [] = ([], StopIteration)"
| "lex_from lineno (c # r) =
     (if c = CHR '' '' then lex_from lineno r
      else
        (case first_match lexer_rules c r of
           None \<Rightarrow> ([], LexingError)
         | Some (kind, n) \<Rightarrow>
             (let text = c # take n r;
                  following = lex_from (lineno + count_list text newline) (drop n r)
              in (\<lparr>tok_name = kind, tok_value = text, tok_lineno = lineno\<rparr> # fst following,
                  snd following))))"

definition lexer_lex :: "string \<Rightarrow> token_stream" where
  "lexer_lex s = lex_from 1 s"

subsection \<open>Collecting labels and instructions\<close>

datatype AssemblerState = META | PROCEDURES

datatype assembler_message =
    MetaVariableOutsideHeader
  | UnrecognizedMetaVariable string
  | UnrecognizedInstruction string
  | WrongArgumentCount string nat nat
  | ValueOutsideInstruction
  | UndefinedLabel string
  | UnrecognizedToken

datatype warning =
    LabelDeclaredTwice string
  | ReservedAssignment
  | TickNotFound

text \<open>
  The assembler's \<open>error\<close> prints the message with the source line and ends the process; its
  \<open>warn\<close> prints and returns. An assembly ends with such an error, or with an exception that
  nothing in \<open>assemble\<close> catches, or with the program.
\<close>

datatype assembler_failure = AssemblerError assembler_message | Raised exception

definition META_VARIABLES :: meta_variables where
  "META_VARIABLES = \<lparr>meta_memory = 128, meta_width = 100, meta_height = 100, meta_tickrate = 60\<rparr>"

definition META_VARIABLE_NAMES :: "string list" where
  "META_VARIABLE_NAMES = [''memory'', ''width'', ''height'', ''tickrate'']"

definition set_meta_variable :: "string \<Rightarrow> int \<Rightarrow> meta_variables \<Rightarrow> meta_variables" where
  "set_meta_variable k v m =
     (if k = ''memory'' then m\<lparr>meta_memory := v\<rparr>
      else if k = ''width'' then m\<lparr>meta_width := v\<rparr>
      else if k = ''height'' then m\<lparr>meta_height := v\<rparr>
      else if k = ''tickrate'' then m\<lparr>meta_tickrate := v\<rparr>
      else m)"

definition ASSIGNMENT_INSTRUCTIONS :: "string list" where
  "ASSIGNMENT_INSTRUCTIONS =
     [''mov'', ''movp'', ''add'', ''sub'', ''mul'', ''div'', ''mod'', ''less'', ''equal'', ''not'']"

text \<open>
  \<open>get_until_newline\<close> takes tokens from the stream up to the next \<open>NEWLINE\<close>, leaving the
  comments out; the stream goes on after that \<open>NEWLINE\<close>. When the stream ends first, the
  exception that ends it comes out.
\<close>

fun get_until_newline :: "exception \<Rightarrow> token list \<Rightarrow> exception + (token list \<times> token list)" where
  "get_until_newline e [] = Inl e"
| "get_until_newline e (t # ts) =
     (if tok_name t = COMMENT then get_until_newline e ts
      else if tok_name t = NEWLINE then Inr ([], ts)
      else
        (case get_until_newline e ts of
           Inl x \<Rightarrow> Inl x
         | Inr (returned_tokens, rest) \<Rightarrow> Inr (t # returned_tokens, rest)))"

text \<open>
  The local variables of \<open>assemble_tokens\<close> during its first loop. The dictionary \<open>labels\<close>
  is the list of its items in the order of their insertion; a key is only ever inserted when
  it is not there yet.
\<close>

record collected =
  compiler_state :: AssemblerState
  output_meta :: meta_variables
  labels :: "(string \<times> int) list"
  raw_instructions :: "(token \<times> token list) list"
  instruction_index :: int
  warnings :: "warning list"

function collect :: "exception \<Rightarrow> collected \<Rightarrow> token list \<Rightarrow> assembler_failure + collected" where
  "collect e st [] = (if e = StopIteration then Inr st else Inl (Raised e))"
| "collect e st (t # ts) =
     (case tok_name t of
        META_VARIABLE \<Rightarrow>
          if compiler_state st \<noteq> META then Inl (AssemblerError MetaVariableOutsideHeader)
          else if drop 1 (tok_value t) \<notin> set META_VARIABLE_NAMES
          then Inl (AssemblerError (UnrecognizedMetaVariable (drop 1 (tok_value t))))
          else
            (case ts of
               [] \<Rightarrow> Inl (Raised e)
             | n # ts' \<Rightarrow>
                 (case py_int (tok_value n) of
                    None \<Rightarrow> Inl (Raised ValueError)
                  | Some v \<Rightarrow>
                      collect e
                        (st\<lparr>output_meta := set_meta_variable (drop 1 (tok_value t)) v (output_meta st)\<rparr>)
                        ts'))
      | LABEL_NAME \<Rightarrow>
          (let st' = st\<lparr>compiler_state := PROCEDURES\<rparr>;
               label_name = butlast (tok_value t)
           in if label_name \<in> fst ` set (labels st')
              then collect e (st'\<lparr>warnings := warnings st' @ [LabelDeclaredTwice label_name]\<rparr>) ts
              else collect e (st'\<lparr>labels := labels st' @ [(label_name, instruction_index st')]\<rparr>) ts)
      | NAME \<Rightarrow>
          if tok_value t \<notin> set INSTRUCTIONS
          then Inl (AssemblerError (UnrecognizedInstruction (tok_value t)))
          else
            (case get_until_newline e ts of
               Inl x \<Rightarrow> Inl (Raised x)
             | Inr (instruction_args, rest) \<Rightarrow>
                 if Some (length instruction_args) \<noteq> ARGUMENT_COUNT_LOOKUP (tok_value t)
                 then Inl (AssemblerError
                            (WrongArgumentCount (tok_value t)
                               (the (ARGUMENT_COUNT_LOOKUP (tok_value t))) (length instruction_args)))
                 else
                   collect e
                     (st\<lparr>raw_instructions := raw_instructions st @ [(t, instruction_args)],
                         instruction_index := instruction_index st + 1\<rparr>)
                     rest)
      | NUMBER \<Rightarrow> Inl (AssemblerError ValueOutsideInstruction)
      | ADDRESS \<Rightarrow> Inl (AssemblerError ValueOutsideInstruction)
      | COMMENT \<Rightarrow> collect e st ts
      | NEWLINE \<Rightarrow> collect e st ts)"
  by pat_completeness auto
termination
proof (relation "measure (\<lambda>(e, st, ts). length ts)")
  show "wf (measure (\<lambda>(e, st, ts). length ts))" by simp
next
  fix e :: exception and st :: collected and t :: token and ts x2 x y xa
  assume "get_until_newline e ts = Inr x2" and "(x, y) = x2"
  then have got: "get_until_newline e ts = Inr (x, y)" by simp
  have "\<And>args rest. get_until_newline e ts = Inr (args, rest) \<Longrightarrow> length rest < Suc (length ts)"
  proof (induction ts)
    case Nil
    then show ?case by simp
  next
    case (Cons a ts)
    then show ?case
      by (auto split: if_splits sum.splits prod.splits) 
  qed
  from this [OF got]
  show "((e, st\<lparr>raw_instructions := raw_instructions st @ [(t, x)],
                  instruction_index := instruction_index st + 1\<rparr>, y), e, st, t # ts)
        \<in> measure (\<lambda>(e, st, ts). length ts)"
    by simp
qed auto

subsection \<open>Resolving the operands\<close>

definition parse_argument_token :: "token \<Rightarrow> (string \<times> int) list \<Rightarrow> assembler_failure + argument" where
  "parse_argument_token t lbls =
     (if tok_name t = NUMBER then
        (case py_int (tok_value t) of
           None \<Rightarrow> Inl (Raised ValueError)
         | Some n \<Rightarrow> Inr (IntArg n))
      else if tok_name t = NAME then
        (case map_of lbls (tok_value t) of
           None \<Rightarrow> Inl (AssemblerError (UndefinedLabel (tok_value t)))
         | Some i \<Rightarrow> Inr (IntArg i))
      else Inr (StrArg (tok_value t)))"

fun parse_argument_tokens :: "token list \<Rightarrow> (string \<times> int) list \<Rightarrow> assembler_failure + argument list" where
  "parse_argument_tokens [] lbls = Inr []"
| "parse_argument_tokens (t # ts) lbls =
     (case parse_argument_token t lbls of
        Inl x \<Rightarrow> Inl x
      | Inr a \<Rightarrow>
          (case parse_argument_tokens ts lbls of
             Inl x \<Rightarrow> Inl x
           | Inr as \<Rightarrow> Inr (a # as)))"

definition reserved_warning :: "string \<Rightarrow> argument \<Rightarrow> warning list" where
  "reserved_warning instruction_name first_argument =
     (case first_argument of
        IntArg n \<Rightarrow> if instruction_name \<in> set ASSIGNMENT_INSTRUCTIONS \<and> n \<le> 11
                    then [ReservedAssignment] else []
      | StrArg s \<Rightarrow> [])"

text \<open>The second loop of \<open>assemble_tokens\<close>, over the raw instructions.\<close>

fun resolve :: "(string \<times> int) list \<Rightarrow> bool \<Rightarrow> (token \<times> token list) list \<Rightarrow>
                assembler_failure + (instruction list \<times> warning list)" where
  "resolve lbls debug [] = Inr ([], [])"
| "resolve lbls debug ((instruction_name_token, instruction_args_tokens) # raws) =
     (case parse_argument_tokens instruction_args_tokens lbls of
        Inl x \<Rightarrow> Inl x
      | Inr instruction_args \<Rightarrow>
          (case instruction_args of
             [] \<Rightarrow> Inl (Raised IndexError)
           | first_argument # _ \<Rightarrow>
               (case resolve lbls debug raws of
                  Inl x \<Rightarrow> Inl x
                | Inr (ins, ws) \<Rightarrow>
                    Inr (\<lparr>ins_name = tok_value instruction_name_token,
                           ins_args = instruction_args,
                           ins_line = (if debug
                                       then Some (int (tok_lineno instruction_name_token) - 1)
                                       else None)\<rparr> # ins,
                         reserved_warning (tok_value instruction_name_token) first_argument @ ws))))"

definition initial_collected :: "AssemblerState \<Rightarrow> collected" where
  "initial_collected state =
     \<lparr>compiler_state = state, output_meta = META_VARIABLES, labels = [],
      raw_instructions = [], instruction_index = 0, warnings = []\<rparr>"

definition assemble_tokens :: "token_stream \<Rightarrow> string list \<Rightarrow> AssemblerState \<Rightarrow> bool \<Rightarrow>
                                assembler_failure + (program_data \<times> warning list)" where
  "assemble_tokens tokens source_lines state debug =
     (case collect (snd tokens) (initial_collected state) (fst tokens) of
        Inl x \<Rightarrow> Inl x
      | Inr st \<Rightarrow>
          (case resolve (labels st) debug (raw_instructions st) of
             Inl x \<Rightarrow> Inl x
           | Inr (ins, ws) \<Rightarrow>
               Inr (\<lparr>meta = output_meta st,
                      instructions = ins,
                      tick = map_of (labels st) ''tick'',
                      start = map_of (labels st) ''start'',
                      data = DataAbsent,
                      source = (if debug then Some source_lines else None),
                      data_entry_count = None\<rparr>,
                    warnings st @ ws @ (if map_of (labels st) ''tick'' = None then [TickNotFound] else []))))"

text \<open>\<open>s.split(d)\<close> for a separator of one character.\<close>

fun split_on :: "char \<Rightarrow> string \<Rightarrow> string list" where
  "split_on d [] = [[]]"
| "split_on d (c # cs) =
     (if c = d then [] # split_on d cs
      else (case split_on d cs of
              w # ws \<Rightarrow> (c # w) # ws
            | [] \<Rightarrow> [[c]]))"

text \<open>
  The part of \<open>assemble\<close> that reads the source: it lexes the text with a newline added, and
  turns a \<open>LexingError\<close> that comes out of \<open>assemble_tokens\<close> into the error
  "Unrecognized token.".
\<close>

definition assemble_source :: "string \<Rightarrow> bool \<Rightarrow> assembler_failure + (program_data \<times> warning list)" where
  "assemble_source source_code debug =
     (case assemble_tokens (lexer_lex (source_code @ [newline])) (split_on newline source_code) META debug of
        Inl (Raised LexingError) \<Rightarrow> Inl (AssemblerError UnrecognizedToken)
      | Inl x \<Rightarrow> Inl x
      | Inr r \<Rightarrow> Inr r)"

section \<open>The data loader\<close>

text \<open>
  What \<open>parse_data\<close> asks of the world around it: whether a path is a file and the bytes read
  from it, the extension that \<open>os.path.splitext\<close> gives for a path, and the image that PIL
  opens from bytes (\<open>None\<close> when it raises, or when the pixels are not colour triples, which
  makes \<open>img_to_simg\<close> raise).
\<close>

type_synonym byte = "8 word"
















section \<open>The binary format\<close>

subsection \<open>The fields of the construct library\<close>

text \<open>
  \<open>Int8ub\<close>, \<open>Int16ub\<close> and \<open>Int32ub\<close> are unsigned big-endian integers of 1, 2 and 4 bytes,
  \<open>Int32sb\<close> is the signed one of 4 bytes in two's complement. Building a value outside the
  range of its field raises an error of the library, and so does parsing from fewer bytes than
  the field takes; the model has one exception, \<open>ConstructError\<close>, for all of them. A parser
  returns the value and the bytes that follow it.
\<close>

fun be_bytes :: "nat \<Rightarrow> int \<Rightarrow> byte list" where
  "be_bytes 0 n = []"
| "be_bytes (Suc k) n = be_bytes k (n div 256) @ [word_of_int (n mod 256)]"

definition from_be :: "byte list \<Rightarrow> int" where
  "from_be bs = foldl (\<lambda>a b. a * 256 + uint b) 0 bs"

definition build_unsigned :: "nat \<Rightarrow> int \<Rightarrow> exception + byte list" where
  "build_unsigned k v =
     (if 0 \<le> v \<and> v < 2 ^ (8 * k) then Inr (be_bytes k v) else Inl ConstructError)"

definition build_signed :: "nat \<Rightarrow> int \<Rightarrow> exception + byte list" where
  "build_signed k v =
     (if - (2 ^ (8 * k - 1)) \<le> v \<and> v < 2 ^ (8 * k - 1)
      then Inr (be_bytes k (v mod 2 ^ (8 * k)))
      else Inl ConstructError)"

definition parse_unsigned :: "nat \<Rightarrow> byte list \<Rightarrow> exception + (int \<times> byte list)" where
  "parse_unsigned k bs =
     (if length bs < k then Inl ConstructError
      else Inr (from_be (take k bs), drop k bs))"

definition parse_signed :: "nat \<Rightarrow> byte list \<Rightarrow> exception + (int \<times> byte list)" where
  "parse_signed k bs =
     (if length bs < k then Inl ConstructError
      else
        (let u = from_be (take k bs)
         in Inr (if u \<ge> 2 ^ (8 * k - 1) then u - 2 ^ (8 * k) else u, drop k bs)))"

text \<open>A struct builds its fields one after the other; the first error ends the build.\<close>

definition cat :: "exception + byte list \<Rightarrow> exception + byte list \<Rightarrow> exception + byte list" where
  "cat a b =
     (case a of
        Inl x \<Rightarrow> Inl x
      | Inr xs \<Rightarrow> (case b of Inl y \<Rightarrow> Inl y | Inr ys \<Rightarrow> Inr (xs @ ys)))"

text \<open>\<open>Array(count, subcon)\<close>: the build refuses a list whose length is not \<open>count\<close>.\<close>

fun build_items :: "('a \<Rightarrow> exception + byte list) \<Rightarrow> 'a list \<Rightarrow> exception + byte list" where
  "build_items f [] = Inr []"
| "build_items f (x # xs) = cat (f x) (build_items f xs)"

definition build_Array :: "int \<Rightarrow> ('a \<Rightarrow> exception + byte list) \<Rightarrow> 'a list \<Rightarrow> exception + byte list" where
  "build_Array count f xs =
     (if int (length xs) \<noteq> count then Inl ConstructError else build_items f xs)"

fun parse_Array :: "nat \<Rightarrow> (byte list \<Rightarrow> exception + ('a \<times> byte list)) \<Rightarrow> byte list \<Rightarrow>
                     exception + ('a list \<times> byte list)" where
  "parse_Array 0 p bs = Inr ([], bs)"
| "parse_Array (Suc n) p bs =
     (case p bs of
        Inl x \<Rightarrow> Inl x
      | Inr (v, bs') \<Rightarrow>
          (case parse_Array n p bs' of
             Inl x \<Rightarrow> Inl x
           | Inr (vs, bs'') \<Rightarrow> Inr (v # vs, bs'')))"

subsection \<open>The structs of the format\<close>

definition INSTRUCTION_IDS :: "string \<rightharpoonup> nat" where
  "INSTRUCTION_IDS = map_of (zip INSTRUCTIONS [0..<length INSTRUCTIONS])"

definition SIGNATURE :: "byte list" where
  "SIGNATURE = [0x67, 0x31]"

definition ARG_TYPE_LITERAL :: int where
  "ARG_TYPE_LITERAL = 0"

definition ARG_TYPE_ADDRESS :: int where
  "ARG_TYPE_ADDRESS = 1"

text \<open>
  The dictionaries that \<open>format_json\<close> makes for the builder, and that the parser gives back:
  an argument, an instruction, a data entry and the whole file.
\<close>

record G1Argument =
  arg_type :: int
  arg_value :: int

record G1Instruction =
  g1_id :: int
  g1_arguments :: "G1Argument list"

record G1DataEntry =
  g1_address :: int
  g1_size :: int
  g1_values :: "int list"

record G1BinaryFormat =
  g1_meta :: meta_variables
  g1_tick :: int
  g1_start :: int
  g1_instruction_count :: int
  g1_instructions :: "G1Instruction list"
  g1_data_entry_count :: int
  g1_data :: "G1DataEntry list"

definition build_G1Argument :: "G1Argument \<Rightarrow> exception + byte list" where
  "build_G1Argument a = cat (build_unsigned 1 (arg_type a)) (build_signed 4 (arg_value a))"

definition argument_count :: "int \<Rightarrow> exception + nat" where
  "argument_count ident =
     (case py_index ARGUMENT_COUNTS ident of None \<Rightarrow> Inl IndexError | Some n \<Rightarrow> Inr n)"

definition build_G1Instruction :: "G1Instruction \<Rightarrow> exception + byte list" where
  "build_G1Instruction i =
     cat (build_unsigned 1 (g1_id i))
       (case argument_count (g1_id i) of
          Inl x \<Rightarrow> Inl x
        | Inr n \<Rightarrow> build_Array (int n) build_G1Argument (g1_arguments i))"

definition build_G1DataEntry :: "G1DataEntry \<Rightarrow> exception + byte list" where
  "build_G1DataEntry d =
     cat (build_unsigned 4 (g1_address d))
       (cat (build_unsigned 4 (g1_size d))
          (build_Array (g1_size d) (build_signed 4) (g1_values d)))"

definition build_G1BinaryFormat :: "G1BinaryFormat \<Rightarrow> exception + byte list" where
  "build_G1BinaryFormat f =
     cat (Inr SIGNATURE)
       (cat (build_unsigned 4 (meta_memory (g1_meta f)))
          (cat (build_unsigned 2 (meta_width (g1_meta f)))
             (cat (build_unsigned 2 (meta_height (g1_meta f)))
                (cat (build_unsigned 2 (meta_tickrate (g1_meta f)))
                   (cat (build_signed 4 (g1_tick f))
                      (cat (build_signed 4 (g1_start f))
                         (cat (build_unsigned 4 (g1_instruction_count f))
                            (cat (build_Array (g1_instruction_count f) build_G1Instruction
                                    (g1_instructions f))
                               (cat (build_unsigned 4 (g1_data_entry_count f))
                                  (build_Array (g1_data_entry_count f) build_G1DataEntry
                                     (g1_data f)))))))))))"

definition parse_G1Argument :: "byte list \<Rightarrow> exception + (G1Argument \<times> byte list)" where
  "parse_G1Argument bs =
     (case parse_unsigned 1 bs of
        Inl x \<Rightarrow> Inl x
      | Inr (t, bs1) \<Rightarrow>
          (case parse_signed 4 bs1 of
             Inl x \<Rightarrow> Inl x
           | Inr (v, bs2) \<Rightarrow> Inr (\<lparr>arg_type = t, arg_value = v\<rparr>, bs2)))"

definition parse_G1Instruction :: "byte list \<Rightarrow> exception + (G1Instruction \<times> byte list)" where
  "parse_G1Instruction bs =
     (case parse_unsigned 1 bs of
        Inl x \<Rightarrow> Inl x
      | Inr (ident, bs1) \<Rightarrow>
          (case argument_count ident of
             Inl x \<Rightarrow> Inl x
           | Inr n \<Rightarrow>
               (case parse_Array n parse_G1Argument bs1 of
                  Inl x \<Rightarrow> Inl x
                | Inr (args, bs2) \<Rightarrow> Inr (\<lparr>g1_id = ident, g1_arguments = args\<rparr>, bs2))))"

definition parse_G1DataEntry :: "byte list \<Rightarrow> exception + (G1DataEntry \<times> byte list)" where
  "parse_G1DataEntry bs =
     (case parse_unsigned 4 bs of
        Inl x \<Rightarrow> Inl x
      | Inr (address, bs1) \<Rightarrow>
          (case parse_unsigned 4 bs1 of
             Inl x \<Rightarrow> Inl x
           | Inr (sz, bs2) \<Rightarrow>
               (case parse_Array (nat sz) (parse_signed 4) bs2 of
                  Inl x \<Rightarrow> Inl x
                | Inr (vals, bs3) \<Rightarrow>
                    Inr (\<lparr>g1_address = address, g1_size = sz, g1_values = vals\<rparr>, bs3))))"

definition parse_Const :: "byte list \<Rightarrow> byte list \<Rightarrow> exception + (unit \<times> byte list)" where
  "parse_Const expected bs =
     (if length bs < length expected then Inl ConstructError
      else if take (length expected) bs \<noteq> expected then Inl ConstructError
      else Inr ((), drop (length expected) bs))"

definition parse_meta :: "byte list \<Rightarrow> exception + (meta_variables \<times> byte list)" where
  "parse_meta bs =
     (case parse_unsigned 4 bs of
        Inl x \<Rightarrow> Inl x
      | Inr (m, bs1) \<Rightarrow>
          (case parse_unsigned 2 bs1 of
             Inl x \<Rightarrow> Inl x
           | Inr (w, bs2) \<Rightarrow>
               (case parse_unsigned 2 bs2 of
                  Inl x \<Rightarrow> Inl x
                | Inr (h, bs3) \<Rightarrow>
                    (case parse_unsigned 2 bs3 of
                       Inl x \<Rightarrow> Inl x
                     | Inr (t, bs4) \<Rightarrow>
                         Inr (\<lparr>meta_memory = m, meta_width = w, meta_height = h,
                                meta_tickrate = t\<rparr>, bs4)))))"

definition parse_G1BinaryFormat :: "byte list \<Rightarrow> exception + G1BinaryFormat" where
  "parse_G1BinaryFormat bs =
     (case parse_Const SIGNATURE bs of
        Inl x \<Rightarrow> Inl x
      | Inr (_, bs0) \<Rightarrow>
     (case parse_meta bs0 of
        Inl x \<Rightarrow> Inl x
      | Inr (m, bs1) \<Rightarrow>
     (case parse_signed 4 bs1 of
        Inl x \<Rightarrow> Inl x
      | Inr (tk, bs2) \<Rightarrow>
     (case parse_signed 4 bs2 of
        Inl x \<Rightarrow> Inl x
      | Inr (st, bs3) \<Rightarrow>
     (case parse_unsigned 4 bs3 of
        Inl x \<Rightarrow> Inl x
      | Inr (n, bs4) \<Rightarrow>
     (case parse_Array (nat n) parse_G1Instruction bs4 of
        Inl x \<Rightarrow> Inl x
      | Inr (ins, bs5) \<Rightarrow>
     (case parse_unsigned 4 bs5 of
        Inl x \<Rightarrow> Inl x
      | Inr (dn, bs6) \<Rightarrow>
     (case parse_Array (nat dn) parse_G1DataEntry bs6 of
        Inl x \<Rightarrow> Inl x
      | Inr (ds, bs7) \<Rightarrow>
          Inr \<lparr>g1_meta = m, g1_tick = tk, g1_start = st, g1_instruction_count = n,
               g1_instructions = ins, g1_data_entry_count = dn, g1_data = ds\<rparr>))))))))"

subsection \<open>From the program to the builder and back\<close>

definition format_argument :: "argument \<Rightarrow> exception + G1Argument" where
  "format_argument a =
     (case a of
        IntArg n \<Rightarrow> Inr \<lparr>arg_type = ARG_TYPE_LITERAL, arg_value = n\<rparr>
      | StrArg s \<Rightarrow>
          (case py_int (drop 1 s) of
             None \<Rightarrow> Inl ValueError
           | Some n \<Rightarrow> Inr \<lparr>arg_type = ARG_TYPE_ADDRESS, arg_value = n\<rparr>))"

fun format_arguments :: "argument list \<Rightarrow> exception + G1Argument list" where
  "format_arguments [] = Inr []"
| "format_arguments (a # as) =
     (case format_argument a of
        Inl x \<Rightarrow> Inl x
      | Inr v \<Rightarrow>
          (case format_arguments as of
             Inl x \<Rightarrow> Inl x
           | Inr vs \<Rightarrow> Inr (v # vs)))"

definition format_instruction :: "instruction \<Rightarrow> exception + G1Instruction" where
  "format_instruction i =
     (case format_arguments (ins_args i) of
        Inl x \<Rightarrow> Inl x
      | Inr verbose_arguments \<Rightarrow>
          (case INSTRUCTION_IDS (ins_name i) of
             None \<Rightarrow> Inl (KeyError (ins_name i))
           | Some instruction_id \<Rightarrow>
               Inr \<lparr>g1_id = int instruction_id, g1_arguments = verbose_arguments\<rparr>))"

fun format_instructions :: "instruction list \<Rightarrow> exception + G1Instruction list" where
  "format_instructions [] = Inr []"
| "format_instructions (i # rest) =
     (case format_instruction i of
        Inl x \<Rightarrow> Inl x
      | Inr v \<Rightarrow>
          (case format_instructions rest of
             Inl x \<Rightarrow> Inl x
           | Inr vs \<Rightarrow> Inr (v # vs)))"

definition format_data_entry :: "data_entry \<Rightarrow> G1DataEntry" where
  "format_data_entry entry =
     \<lparr>g1_address = int (fst entry), g1_size = int (length (snd entry)), g1_values = snd entry\<rparr>"

definition format_json :: "program_data \<Rightarrow> exception + G1BinaryFormat" where
  "format_json program_json =
     (case format_instructions (instructions program_json) of
        Inl x \<Rightarrow> Inl x
      | Inr verbose_instructions \<Rightarrow>
          (case data program_json of
             DataNone \<Rightarrow> Inl TypeError
           | DataAbsent \<Rightarrow>
               Inr \<lparr>g1_meta = meta program_json,
                    g1_tick = (case tick program_json of None \<Rightarrow> - 1 | Some t \<Rightarrow> t),
                    g1_start = (case start program_json of None \<Rightarrow> - 1 | Some s \<Rightarrow> s),
                    g1_instruction_count = int (length (instructions program_json)),
                    g1_instructions = verbose_instructions,
                    g1_data_entry_count = 0,
                    g1_data = []\<rparr>
           | DataList entries \<Rightarrow>
               Inr \<lparr>g1_meta = meta program_json,
                    g1_tick = (case tick program_json of None \<Rightarrow> - 1 | Some t \<Rightarrow> t),
                    g1_start = (case start program_json of None \<Rightarrow> - 1 | Some s \<Rightarrow> s),
                    g1_instruction_count = int (length (instructions program_json)),
                    g1_instructions = verbose_instructions,
                    g1_data_entry_count = int (length (map format_data_entry entries)),
                    g1_data = map format_data_entry entries\<rparr>))"

text \<open>\<open>str(n)\<close> for an integer: its decimal digits, after a minus sign when it is negative.\<close>

fun nat_digits :: "nat \<Rightarrow> string" where
  "nat_digits n =
     (if n < 10 then [char_of (48 + n)]
      else nat_digits (n div 10) @ [char_of (48 + n mod 10)])"

definition py_str :: "int \<Rightarrow> string" where
  "py_str n = (if n < 0 then CHR ''-'' # nat_digits (nat (- n)) else nat_digits (nat n))"

definition convert_argument :: "G1Argument \<Rightarrow> argument" where
  "convert_argument arg_data =
     (if arg_type arg_data = ARG_TYPE_LITERAL then IntArg (arg_value arg_data)
      else StrArg (CHR ''$'' # py_str (arg_value arg_data)))"

fun convert_instructions :: "G1Instruction list \<Rightarrow> exception + instruction list" where
  "convert_instructions [] = Inr []"
| "convert_instructions (i # rest) =
     (case py_index INSTRUCTIONS (g1_id i) of
        None \<Rightarrow> Inl IndexError
      | Some instruction_name \<Rightarrow>
          (case convert_instructions rest of
             Inl x \<Rightarrow> Inl x
           | Inr new_instructions \<Rightarrow>
               Inr (\<lparr>ins_name = instruction_name,
                      ins_args = map convert_argument (g1_arguments i),
                      ins_line = None\<rparr> # new_instructions)))"

definition parse_to_program_data :: "byte list \<Rightarrow> exception + program_data" where
  "parse_to_program_data file_content =
     (case parse_G1BinaryFormat file_content of
        Inl x \<Rightarrow> Inl x
      | Inr parsed_data \<Rightarrow>
          (case convert_instructions (g1_instructions parsed_data) of
             Inl x \<Rightarrow> Inl x
           | Inr new_instructions \<Rightarrow>
               Inr \<lparr>meta = g1_meta parsed_data,
                    instructions = new_instructions,
                    tick = (if g1_tick parsed_data = - 1 then None else Some (g1_tick parsed_data)),
                    start = (if g1_start parsed_data = - 1 then None else Some (g1_start parsed_data)),
                    data = (if g1_data parsed_data = [] then DataAbsent
                            else DataList (map (\<lambda>d. (nat (g1_address d), g1_values d))
                                             (g1_data parsed_data))),
                    source = None,
                    data_entry_count = (if g1_data parsed_data = [] then None
                                        else Some (g1_data_entry_count parsed_data))\<rparr>))"

definition encode :: "program_data \<Rightarrow> exception + byte list" where
  "encode program_json =
     (case format_json program_json of
        Inl x \<Rightarrow> Inl x
      | Inr formatted_json \<Rightarrow> build_G1BinaryFormat formatted_json)"

subsection \<open>The whole assembly\<close>




subsection \<open>What the binary format keeps of a program\<close>

text \<open>
  The binary format stores an address operand as the integer after its first character, so
  that it comes back as \<open>$\<close> followed by the decimal digits of that integer; it stores neither
  the source text nor the line numbers; an absent \<open>tick\<close> or \<open>start\<close> is the integer -1 in the
  file, and -1 in the file is an absent entry; a data section without entries is absent after
  decoding.
\<close>

definition persisted_argument :: "argument \<Rightarrow> argument" where
  "persisted_argument a =
     (case a of
        IntArg n \<Rightarrow> IntArg n
      | StrArg s \<Rightarrow> StrArg (CHR ''$'' # py_str (the (py_int (drop 1 s)))))"

definition persisted_instruction :: "instruction \<Rightarrow> instruction" where
  "persisted_instruction i =
     \<lparr>ins_name = ins_name i, ins_args = map persisted_argument (ins_args i), ins_line = None\<rparr>"

definition persisted_entry :: "int option \<Rightarrow> int option" where
  "persisted_entry index = (if index = Some (- 1) then None else index)"

definition persisted :: "program_data \<Rightarrow> program_data" where
  "persisted pd =
     \<lparr>meta = meta pd,
      instructions = map persisted_instruction (instructions pd),
      tick = persisted_entry (tick pd),
      start = persisted_entry (start pd),
      data = (case data pd of DataList (e # es) \<Rightarrow> DataList (e # es) | _ \<Rightarrow> DataAbsent),
      source = None,
      data_entry_count = None\<rparr>"

subsection \<open>The programs that the builder accepts\<close>

text \<open>
  The ranges are those of the fields of the format: 32 bits without sign for the memory size,
  the counts, the addresses and sizes of data entries; 16 bits without sign for width, height
  and tickrate; 32 bits with sign for \<open>tick\<close>, \<open>start\<close>, the operands and the data values. An
  instruction has a name of the table and as many operands as the table says, and the text of
  an address operand after its first character reads as an integer.
\<close>

definition int32 :: "int \<Rightarrow> bool" where
  "int32 v = (- (2 ^ 31) \<le> v \<and> v < 2 ^ 31)"

definition uint32 :: "int \<Rightarrow> bool" where
  "uint32 v = (0 \<le> v \<and> v < 2 ^ 32)"

definition uint16 :: "int \<Rightarrow> bool" where
  "uint16 v = (0 \<le> v \<and> v < 2 ^ 16)"

definition valid_argument :: "argument \<Rightarrow> bool" where
  "valid_argument a =
     (case a of
        IntArg n \<Rightarrow> int32 n
      | StrArg s \<Rightarrow> (case py_int (drop 1 s) of None \<Rightarrow> False | Some n \<Rightarrow> int32 n))"

definition valid_instruction :: "instruction \<Rightarrow> bool" where
  "valid_instruction i =
     (ARGUMENT_COUNT_LOOKUP (ins_name i) = Some (length (ins_args i)) \<and>
      list_all valid_argument (ins_args i))"

definition valid_entry :: "data_entry \<Rightarrow> bool" where
  "valid_entry e =
     (uint32 (int (fst e)) \<and> uint32 (int (length (snd e))) \<and> list_all int32 (snd e))"

definition valid_index :: "int option \<Rightarrow> bool" where
  "valid_index index = (case index of None \<Rightarrow> True | Some v \<Rightarrow> int32 v)"

definition valid_program :: "program_data \<Rightarrow> bool" where
  "valid_program pd =
     (uint32 (meta_memory (meta pd)) \<and> uint16 (meta_width (meta pd)) \<and>
      uint16 (meta_height (meta pd)) \<and> uint16 (meta_tickrate (meta pd)) \<and>
      valid_index (tick pd) \<and> valid_index (start pd) \<and>
      uint32 (int (length (instructions pd))) \<and> list_all valid_instruction (instructions pd) \<and>
      (case data pd of
         DataAbsent \<Rightarrow> True
       | DataNone \<Rightarrow> False
       | DataList entries \<Rightarrow> uint32 (int (length entries)) \<and> list_all valid_entry entries))"

subsection \<open>Small programs and contexts to run\<close>

definition example_program :: "instruction list \<Rightarrow> program_data" where
  "example_program ins =
     \<lparr>meta = \<lparr>meta_memory = 128, meta_width = 100, meta_height = 100, meta_tickrate = 60\<rparr>,
      instructions = ins, tick = None, start = None, data = DataAbsent, source = None,
      data_entry_count = None\<rparr>"

definition example_context :: "instruction list \<Rightarrow> int \<Rightarrow> program_context" where
  "example_context ins pc =
     \<lparr>program_data = example_program ins, memory = replicate 128 0, program_counter = pc,
      color = (0, 0, 0), surface = [], printed = []\<rparr>"

definition instr :: "string \<Rightarrow> argument list \<Rightarrow> instruction" where
  "instr name args = \<lparr>ins_name = name, ins_args = args, ins_line = None\<rparr>"

definition tok :: "token_kind \<Rightarrow> string \<Rightarrow> nat \<Rightarrow> token" where
  "tok kind text lineno = \<lparr>tok_name = kind, tok_value = text, tok_lineno = lineno\<rparr>"

definition example_debug_program :: program_data where
  "example_debug_program =
     \<lparr>meta = \<lparr>meta_memory = 128, meta_width = 100, meta_height = 100, meta_tickrate = 60\<rparr>,
      instructions = [\<lparr>ins_name = ''mov'', ins_args = [IntArg 20, StrArg ''$05''], ins_line = Some 1\<rparr>],
      tick = None, start = Some 0, data = DataList [(20, [1, - 2])],
      source = Some [''start:'', ''mov 20 $05''], data_entry_count = None\<rparr>"


section \<open>Properties of the virtual machine\<close>

lemma lookup_jmp: "INSTRUCTION_LOOKUP ''jmp'' = Some ins_jmp"
  by (simp add: INSTRUCTION_LOOKUP_def INSTRUCTIONS_def INSTRUCTION_FUNCTIONS_def)

lemma lookup_div: "INSTRUCTION_LOOKUP ''div'' = Some ins_div"
  by (simp add: INSTRUCTION_LOOKUP_def INSTRUCTIONS_def INSTRUCTION_FUNCTIONS_def)

lemma lookup_mod: "INSTRUCTION_LOOKUP ''mod'' = Some ins_mod"
  by (simp add: INSTRUCTION_LOOKUP_def INSTRUCTIONS_def INSTRUCTION_FUNCTIONS_def)

lemma py_index_Some_less: "py_index xs i = Some x \<Longrightarrow> i < int (length xs)"
  by (auto simp: py_index_def Let_def split: if_splits)

lemma loop_body_jmp:
  assumes "py_index (instructions (program_data ctx)) (program_counter ctx) = Some ins"
    and "ins_name ins = ''jmp''"
    and "parse_arguments ctx (ins_args ins) = Inr (target # cond # rest)"
  shows "loop_body disable_log ctx =
           Inr (ctx\<lparr>program_counter := (if cond \<noteq> 0 then target else program_counter ctx + 1)\<rparr>)"
  using assms by (simp add: loop_body_def lookup_jmp)

lemma program_loop_unfold:
  assumes "py_index (instructions (program_data ctx)) (program_counter ctx) = Some ins"
  shows "program_loop disable_log ctx =
           (case loop_body disable_log ctx of
              Inl e \<Rightarrow> Some (Inl e)
            | Inr ctx' \<Rightarrow> program_loop disable_log ctx')"
  by (subst program_loop.simps) (simp add: py_index_Some_less [OF assms])

lemma program_loop_step:
  "program_counter ctx < int (length (instructions (program_data ctx))) \<Longrightarrow>
   loop_body disable_log ctx = Inr ctx' \<Longrightarrow>
   program_loop disable_log ctx = program_loop disable_log ctx'"
  by (subst program_loop.simps) simp

lemma program_loop_done:
  "\<not> program_counter ctx < int (length (instructions (program_data ctx))) \<Longrightarrow>
   program_loop disable_log ctx = Some (Inr ctx)"
  by (subst program_loop.simps) simp

lemma py_index_in_range:
  "0 \<le> i \<Longrightarrow> i < int (length xs) \<Longrightarrow> py_index xs i = Some (xs ! nat i)"
  by (auto simp: py_index_def Let_def)

lemmas example_defs = example_context_def example_program_def instr_def py_index_def

text \<open>
  Claim C3. When the instruction at the program counter is \<open>jmp\<close> and its operands decode to
  \<open>target\<close> and \<open>cond\<close>, one turn of the loop sets the program counter to \<open>target\<close> if
  \<open>cond\<close> is not zero (whatever the target, 0 included) and to the next index if \<open>cond\<close> is
  zero; nothing else in the context changes. The run then goes on from that program counter:
  if it is below the number of instructions, the next turn of the loop runs at it, and the
  run is the rest of the run from what that turn gives; if not, the run ends there with that
  context. When that program counter is an index of the list, the instruction the next turn
  fetches is the one at that index.
\<close>

theorem C3_jmp_sets_or_falls_through:
  assumes "py_index (instructions (program_data ctx)) (program_counter ctx) = Some ins"
    and "ins_name ins = ''jmp''"
    and "parse_arguments ctx (ins_args ins) = Inr (target # cond # rest)"
  shows "loop_body disable_log ctx =
           Inr (ctx\<lparr>program_counter := (if cond \<noteq> 0 then target else program_counter ctx + 1)\<rparr>) \<and>
         program_loop disable_log ctx =
           program_loop disable_log
             (ctx\<lparr>program_counter := (if cond \<noteq> 0 then target else program_counter ctx + 1)\<rparr>) \<and>
         program_loop disable_log ctx =
           (if (if cond \<noteq> 0 then target else program_counter ctx + 1)
                 < int (length (instructions (program_data ctx)))
            then (case loop_body disable_log
                         (ctx\<lparr>program_counter :=
                                 (if cond \<noteq> 0 then target else program_counter ctx + 1)\<rparr>) of
                    Inl e \<Rightarrow> Some (Inl e)
                  | Inr ctx' \<Rightarrow> program_loop disable_log ctx')
            else Some (Inr (ctx\<lparr>program_counter :=
                                   (if cond \<noteq> 0 then target else program_counter ctx + 1)\<rparr>))) \<and>
         (0 \<le> (if cond \<noteq> 0 then target else program_counter ctx + 1) \<and>
          (if cond \<noteq> 0 then target else program_counter ctx + 1)
            < int (length (instructions (program_data ctx))) \<longrightarrow>
            py_index (instructions (program_data ctx))
              (if cond \<noteq> 0 then target else program_counter ctx + 1) =
              Some (instructions (program_data ctx) !
                      nat (if cond \<noteq> 0 then target else program_counter ctx + 1)))"
proof -
  let ?pc = "if cond \<noteq> 0 then target else program_counter ctx + 1"
  let ?ctx = "ctx\<lparr>program_counter := ?pc\<rparr>"
  have body: "loop_body disable_log ctx = Inr ?ctx"
    using assms by (rule loop_body_jmp)
  have jump: "program_loop disable_log ctx = program_loop disable_log ?ctx"
    using body program_loop_unfold [OF assms(1), of disable_log] by simp
  have again: "program_loop disable_log ?ctx =
      (if ?pc < int (length (instructions (program_data ctx)))
       then (case loop_body disable_log ?ctx of
               Inl e \<Rightarrow> Some (Inl e)
             | Inr ctx' \<Rightarrow> program_loop disable_log ctx')
       else Some (Inr ?ctx))"
    by (subst program_loop.simps) simp
  have fetch: "0 \<le> ?pc \<and> ?pc < int (length (instructions (program_data ctx))) \<longrightarrow>
      py_index (instructions (program_data ctx)) ?pc = Some (instructions (program_data ctx) ! nat ?pc)"
    using py_index_in_range [of ?pc "instructions (program_data ctx)"] by blast
  show ?thesis
    using body jump again fetch by (simp only: simp_thms)
qed

text \<open>
  The program \<open>not 21 $21\<close>, \<open>log 1\<close>, \<open>log 2\<close>, \<open>jmp 0 $21\<close>, \<open>log 4\<close>, entered at index 3.
  With cell 21 at 1 the jump is taken: the run goes back to index 0, where \<open>not\<close> clears
  cell 21, prints 1 and 2, meets the jump again with cell 21 at 0, falls through to index 4,
  prints 4 and ends at index 5. With cell 21 at 0 from the start the jump falls through to
  index 4 at once, and the run prints 4 and ends.
\<close>

theorem C3_jmp_sets_or_falls_through_witness:
  "loop_body False
     ((example_context [instr ''not'' [IntArg 21, StrArg ''$21''], instr ''log'' [IntArg 1],
         instr ''log'' [IntArg 2], instr ''jmp'' [IntArg 0, StrArg ''$21''],
         instr ''log'' [IntArg 4]] 3)\<lparr>memory := (replicate 128 0)[21 := 1]\<rparr>) =
     Inr ((example_context [instr ''not'' [IntArg 21, StrArg ''$21''], instr ''log'' [IntArg 1],
         instr ''log'' [IntArg 2], instr ''jmp'' [IntArg 0, StrArg ''$21''],
         instr ''log'' [IntArg 4]] 0)\<lparr>memory := (replicate 128 0)[21 := 1]\<rparr>) \<and>
   py_index [instr ''not'' [IntArg 21, StrArg ''$21''], instr ''log'' [IntArg 1],
         instr ''log'' [IntArg 2], instr ''jmp'' [IntArg 0, StrArg ''$21''],
         instr ''log'' [IntArg 4]] 0 = Some (instr ''not'' [IntArg 21, StrArg ''$21'']) \<and>
   program_loop False
     ((example_context [instr ''not'' [IntArg 21, StrArg ''$21''], instr ''log'' [IntArg 1],
         instr ''log'' [IntArg 2], instr ''jmp'' [IntArg 0, StrArg ''$21''],
         instr ''log'' [IntArg 4]] 3)\<lparr>memory := (replicate 128 0)[21 := 1]\<rparr>) =
     Some (Inr ((example_context [instr ''not'' [IntArg 21, StrArg ''$21''], instr ''log'' [IntArg 1],
         instr ''log'' [IntArg 2], instr ''jmp'' [IntArg 0, StrArg ''$21''],
         instr ''log'' [IntArg 4]] 5)\<lparr>printed := [1, 2, 4]\<rparr>)) \<and>
   loop_body False
     (example_context [instr ''not'' [IntArg 21, StrArg ''$21''], instr ''log'' [IntArg 1],
         instr ''log'' [IntArg 2], instr ''jmp'' [IntArg 0, StrArg ''$21''],
         instr ''log'' [IntArg 4]] 3) =
     Inr (example_context [instr ''not'' [IntArg 21, StrArg ''$21''], instr ''log'' [IntArg 1],
         instr ''log'' [IntArg 2], instr ''jmp'' [IntArg 0, StrArg ''$21''],
         instr ''log'' [IntArg 4]] 4) \<and>
   py_index [instr ''not'' [IntArg 21, StrArg ''$21''], instr ''log'' [IntArg 1],
         instr ''log'' [IntArg 2], instr ''jmp'' [IntArg 0, StrArg ''$21''],
         instr ''log'' [IntArg 4]] 4 = Some (instr ''log'' [IntArg 4]) \<and>
   program_loop False
     (example_context [instr ''not'' [IntArg 21, StrArg ''$21''], instr ''log'' [IntArg 1],
         instr ''log'' [IntArg 2], instr ''jmp'' [IntArg 0, StrArg ''$21''],
         instr ''log'' [IntArg 4]] 3) =
     Some (Inr ((example_context [instr ''not'' [IntArg 21, StrArg ''$21''], instr ''log'' [IntArg 1],
         instr ''log'' [IntArg 2], instr ''jmp'' [IntArg 0, StrArg ''$21''],
         instr ''log'' [IntArg 4]] 5)\<lparr>printed := [4]\<rparr>))"
proof -
  let ?jmp = "instr ''jmp'' [IntArg 0, StrArg ''$21'']"
  let ?ins = "[instr ''not'' [IntArg 21, StrArg ''$21''], instr ''log'' [IntArg 1],
         instr ''log'' [IntArg 2], ?jmp, instr ''log'' [IntArg 4]]"
  let ?a3 = "(example_context ?ins 3)\<lparr>memory := (replicate 128 0)[21 := 1]\<rparr>"
  let ?a0 = "(example_context ?ins 0)\<lparr>memory := (replicate 128 0)[21 := 1]\<rparr>"
  let ?b1 = "example_context ?ins 1"
  let ?b2 = "(example_context ?ins 2)\<lparr>printed := [1]\<rparr>"
  let ?b3 = "(example_context ?ins 3)\<lparr>printed := [1, 2]\<rparr>"
  let ?b4 = "(example_context ?ins 4)\<lparr>printed := [1, 2]\<rparr>"
  let ?b5 = "(example_context ?ins 5)\<lparr>printed := [1, 2, 4]\<rparr>"
  let ?c3 = "example_context ?ins 3"
  let ?c4 = "example_context ?ins 4"
  let ?c5 = "(example_context ?ins 5)\<lparr>printed := [4]\<rparr>"
  have name: "ins_name ?jmp = ''jmp''" by (simp add: instr_def)
  have fa: "py_index (instructions (program_data ?a3)) (program_counter ?a3) = Some ?jmp"
    and pa: "parse_arguments ?a3 (ins_args ?jmp) = Inr [0, 1]"
    and fc: "py_index (instructions (program_data ?c3)) (program_counter ?c3) = Some ?jmp"
    and pc: "parse_arguments ?c3 (ins_args ?jmp) = Inr [0, 0]"
    by code_simp+
  note taken = C3_jmp_sets_or_falls_through [OF fa name pa, of False]
  note fallen = C3_jmp_sets_or_falls_through [OF fc name pc, of False]
  have body_a: "loop_body False ?a3 = Inr ?a0"
    using taken [THEN conjunct1] by (simp add: example_context_def)
  have fetch_a: "py_index ?ins 0 = Some (instr ''not'' [IntArg 21, StrArg ''$21''])"
    using taken [THEN conjunct2, THEN conjunct2, THEN conjunct2]
    by (simp add: example_context_def example_program_def)
  have "program_loop False ?a3 =
      (case loop_body False ?a0 of Inl e \<Rightarrow> Some (Inl e) | Inr ctx' \<Rightarrow> program_loop False ctx')"
    using taken [THEN conjunct2, THEN conjunct2, THEN conjunct1]
    by (simp add: example_context_def example_program_def)
  also have "loop_body False ?a0 = Inr ?b1" by code_simp
  also have "(case Inr ?b1 of Inl e \<Rightarrow> Some (Inl e) | Inr ctx' \<Rightarrow> program_loop False ctx') =
      program_loop False ?b1" by simp
  also have "\<dots> = program_loop False ?b2" by (rule program_loop_step) code_simp+
  also have "\<dots> = program_loop False ?b3" by (rule program_loop_step) code_simp+
  also have "\<dots> = program_loop False ?b4" by (rule program_loop_step) code_simp+
  also have "\<dots> = program_loop False ?b5" by (rule program_loop_step) code_simp+
  also have "\<dots> = Some (Inr ?b5)" by (rule program_loop_done) code_simp
  finally have run_a: "program_loop False ?a3 = Some (Inr ?b5)" .
  have body_c: "loop_body False ?c3 = Inr ?c4"
    using fallen [THEN conjunct1] by (simp add: example_context_def)
  have fetch_c: "py_index ?ins 4 = Some (instr ''log'' [IntArg 4])"
    using fallen [THEN conjunct2, THEN conjunct2, THEN conjunct2]
    by (simp add: example_context_def example_program_def)
  have "program_loop False ?c3 =
      (case loop_body False ?c4 of Inl e \<Rightarrow> Some (Inl e) | Inr ctx' \<Rightarrow> program_loop False ctx')"
    using fallen [THEN conjunct2, THEN conjunct2, THEN conjunct1]
    by (simp add: example_context_def example_program_def)
  also have "loop_body False ?c4 = Inr ?c5" by code_simp
  also have "(case Inr ?c5 of Inl e \<Rightarrow> Some (Inl e) | Inr ctx' \<Rightarrow> program_loop False ctx') =
      Some (Inr ?c5)" by (simp add: program_loop_done example_context_def example_program_def)
  finally have run_c: "program_loop False ?c3 = Some (Inr ?c5)" .
  show ?thesis
    using body_a fetch_a run_a body_c fetch_c run_c by (simp only: simp_thms)
qed

text \<open>
  Claim C4. When the instruction at the program counter is \<open>div\<close> or \<open>mod\<close> and its third
  operand decodes to 0, the turn of the loop fails with the message "Division by zero." and the
  run ends there; the context at that moment is the one before the instruction, so no memory
  cell has been written.
\<close>

theorem C4_div_mod_by_zero_is_fatal:
  assumes "py_index (instructions (program_data ctx)) (program_counter ctx) = Some ins"
    and "ins_name ins = ''div'' \<or> ins_name ins = ''mod''"
    and "parse_arguments ctx (ins_args ins) = Inr (a # x # 0 # rest)"
  shows "loop_body disable_log ctx = Inl (RuntimeError DivisionByZero, ctx) \<and>
         program_loop disable_log ctx = Some (Inl (RuntimeError DivisionByZero, ctx))"
proof -
  have "loop_body disable_log ctx = Inl (RuntimeError DivisionByZero, ctx)"
    using assms by (auto simp: loop_body_def lookup_div lookup_mod error_def)
  then show ?thesis
    using program_loop_unfold [OF assms(1)] by simp
qed

theorem C4_div_mod_by_zero_is_fatal_witness:
  "program_loop False (example_context [instr ''div'' [StrArg ''$0'', IntArg 10, IntArg 0]] 0) =
     Some (Inl (RuntimeError DivisionByZero,
                example_context [instr ''div'' [StrArg ''$0'', IntArg 10, IntArg 0]] 0)) \<and>
   program_loop False (example_context [instr ''mod'' [StrArg ''$0'', IntArg 10, IntArg 0]] 0) =
     Some (Inl (RuntimeError DivisionByZero,
                example_context [instr ''mod'' [StrArg ''$0'', IntArg 10, IntArg 0]] 0))"
  using C4_div_mod_by_zero_is_fatal [of "example_context [instr ''div'' [StrArg ''$0'', IntArg 10, IntArg 0]] 0"
          "instr ''div'' [StrArg ''$0'', IntArg 10, IntArg 0]" 0 10 "[]" False]
        C4_div_mod_by_zero_is_fatal [of "example_context [instr ''mod'' [StrArg ''$0'', IntArg 10, IntArg 0]] 0"
          "instr ''mod'' [StrArg ''$0'', IntArg 10, IntArg 0]" 0 10 "[]" False]
  by (simp add: example_defs parse_argument_def py_int_def py_int_digits_def is_digit_def ord_def
        digits_to_nat_def digit_value_def memget_def)


lemma py_index_negative:
  "i < 0 \<Longrightarrow> py_index xs i =
     (if - int (length xs) \<le> i then Some (xs ! nat (int (length xs) + i)) else None)"
  by (auto simp: py_index_def Let_def)

lemma loop_body_no_fetch:
  "py_index (instructions (program_data ctx)) (program_counter ctx) = None \<Longrightarrow>
   loop_body disable_log ctx = Inl (Uncaught IndexError, ctx)"
  by (simp add: loop_body_def)

text \<open>
  Claim C10, amended. After a \<open>jmp\<close> with a condition that is not zero and a negative target,
  the loop does not stop. If the target is at least \<open>-len(instructions)\<close>, the next fetch
  takes the instruction at index \<open>len(instructions) + target\<close> and the run goes on with it. If
  the target is below \<open>-len(instructions)\<close>, the next fetch raises \<open>IndexError\<close> and the run
  ends there.
\<close>

theorem C10_jmp_negative_target:
  assumes "py_index (instructions (program_data ctx)) (program_counter ctx) = Some ins"
    and "ins_name ins = ''jmp''"
    and "parse_arguments ctx (ins_args ins) = Inr (target # cond # rest)"
    and "cond \<noteq> 0"
    and "target < 0"
  shows "py_index (instructions (program_data ctx)) target =
           (if - int (length (instructions (program_data ctx))) \<le> target
            then Some (instructions (program_data ctx) !
                         nat (int (length (instructions (program_data ctx))) + target))
            else None) \<and>
         program_loop disable_log ctx =
           (if - int (length (instructions (program_data ctx))) \<le> target
            then (case loop_body disable_log (ctx\<lparr>program_counter := target\<rparr>) of
                    Inl e \<Rightarrow> Some (Inl e)
                  | Inr ctx' \<Rightarrow> program_loop disable_log ctx')
            else Some (Inl (Uncaught IndexError, ctx\<lparr>program_counter := target\<rparr>)))"
proof -
  let ?ctx = "ctx\<lparr>program_counter := target\<rparr>"
  have fetch: "py_index (instructions (program_data ctx)) target =
           (if - int (length (instructions (program_data ctx))) \<le> target
            then Some (instructions (program_data ctx) !
                         nat (int (length (instructions (program_data ctx))) + target))
            else None)"
    using assms(5) by (rule py_index_negative)
  have jump: "program_loop disable_log ctx = program_loop disable_log ?ctx"
    using loop_body_jmp [OF assms(1-3), of disable_log] program_loop_unfold [OF assms(1), of disable_log]
      assms(4) by simp
  have again: "program_loop disable_log ?ctx =
      (case loop_body disable_log ?ctx of
         Inl e \<Rightarrow> Some (Inl e)
       | Inr ctx' \<Rightarrow> program_loop disable_log ctx')"
    using assms(5) by (subst program_loop.simps) simp
  show ?thesis
  proof (cases "- int (length (instructions (program_data ctx))) \<le> target")
    case True
    then show ?thesis using fetch jump again by simp
  next
    case False
    then have "py_index (instructions (program_data ?ctx)) (program_counter ?ctx) = None"
      using fetch by simp
    then have "loop_body disable_log ?ctx = Inl (Uncaught IndexError, ?ctx)"
      by (rule loop_body_no_fetch)
    then show ?thesis using False fetch jump again by simp
  qed
qed

theorem C10_jmp_negative_target_witness:
  "program_loop False
     (example_context [instr ''log'' [IntArg 7], instr ''jmp'' [IntArg (- 2), IntArg 1]] 1) =
   (case loop_body False
      (example_context [instr ''log'' [IntArg 7], instr ''jmp'' [IntArg (- 2), IntArg 1]] (- 2)) of
      Inl e \<Rightarrow> Some (Inl e)
    | Inr ctx' \<Rightarrow> program_loop False ctx') \<and>
   py_index [instr ''log'' [IntArg 7], instr ''jmp'' [IntArg (- 2), IntArg 1]] (- 2) =
     Some (instr ''log'' [IntArg 7])"
  using C10_jmp_negative_target [of "example_context [instr ''log'' [IntArg 7], instr ''jmp'' [IntArg (- 2), IntArg 1]] 1"
      "instr ''jmp'' [IntArg (- 2), IntArg 1]" "- 2" 1 "[]" False]
  by (simp add: example_defs parse_argument_def)

text \<open>
  Claim C10 as stated fails for a target below \<open>-len(instructions)\<close>: the one-instruction
  program \<open>jmp -5 1\<close> ends with an \<open>IndexError\<close> at the fetch that follows the jump.
\<close>

theorem C10_jmp_negative_target_counterexample:
  "program_loop False (example_context [instr ''jmp'' [IntArg (- 5), IntArg 1]] 0) =
     Some (Inl (Uncaught IndexError, example_context [instr ''jmp'' [IntArg (- 5), IntArg 1]] (- 5)))"
  apply (subst program_loop.simps)
  apply (simp add: example_defs loop_body_def parse_argument_def lookup_jmp)
  apply (subst program_loop.simps)
  apply (simp add: example_defs loop_body_def)
  done

lemma length_reserved_values: "length (reserved_values ctx keys delta_ms) = 13"
  by (simp add: reserved_values_def Let_def)

lemma memory_update_reserved_memory:
  "memory (update_reserved_memory ctx keys delta_ms) =
     reserved_values ctx keys delta_ms @ drop 13 (memory ctx)"
  by (simp add: update_reserved_memory_def slice_assign_def Let_def length_reserved_values)

text \<open>
  Claim C9. \<open>update_reserved_memory\<close> writes the cells 0 to 12: the eight keys as 0 or 1,
  then the meta values \<open>memory\<close>, \<open>width\<close>, \<open>height\<close>, \<open>tickrate\<close>, then \<open>delta_ms\<close>. Every cell
  from index 13 on keeps its value (a memory shorter than 13 cells grows to 13). The start
  entry and every frame's tick entry run on the context so updated.
\<close>

theorem C9_update_reserved_memory_frame:
  "take 13 (memory (update_reserved_memory ctx keys delta_ms)) =
     [py_bool (K_RETURN keys), py_bool (K_RSHIFT keys), py_bool (K_z keys), py_bool (K_x keys),
      py_bool (K_UP keys), py_bool (K_DOWN keys), py_bool (K_LEFT keys), py_bool (K_RIGHT keys),
      meta_memory (meta (program_data ctx)), meta_width (meta (program_data ctx)),
      meta_height (meta (program_data ctx)), meta_tickrate (meta (program_data ctx)),
      delta_ms] \<and>
   drop 13 (memory (update_reserved_memory ctx keys delta_ms)) = drop 13 (memory ctx) \<and>
   length (memory (update_reserved_memory ctx keys delta_ms)) = max 13 (length (memory ctx)) \<and>
   run_frame ctx tick_label_index keys delta_ms disable_log =
     program_loop disable_log
       ((update_reserved_memory ctx keys delta_ms)\<lparr>program_counter := tick_label_index\<rparr>) \<and>
   run_start pd keys disable_log =
     (case ProgramContext pd (data_get pd) of
        Inl e \<Rightarrow> Some (Inl e)
      | Inr c \<Rightarrow>
          (case start pd of
             None \<Rightarrow> Some (Inr (Inr c))
           | Some index \<Rightarrow>
               map_option Inr
                 (program_loop disable_log
                    ((update_reserved_memory c keys 0)\<lparr>program_counter := index\<rparr>))))"
proof -
  let ?vals = "reserved_values ctx keys delta_ms"
  have len: "length ?vals = 13" by (rule length_reserved_values)
  have mem: "memory (update_reserved_memory ctx keys delta_ms) = ?vals @ drop 13 (memory ctx)"
    by (rule memory_update_reserved_memory)
  have "take 13 (?vals @ drop 13 (memory ctx)) = ?vals"
    using len by simp
  moreover have "?vals = [py_bool (K_RETURN keys), py_bool (K_RSHIFT keys), py_bool (K_z keys), py_bool (K_x keys),
      py_bool (K_UP keys), py_bool (K_DOWN keys), py_bool (K_LEFT keys), py_bool (K_RIGHT keys),
      meta_memory (meta (program_data ctx)), meta_width (meta (program_data ctx)),
      meta_height (meta (program_data ctx)), meta_tickrate (meta (program_data ctx)),
      delta_ms]"
    by (simp add: reserved_values_def Let_def)
  moreover have "drop 13 (?vals @ drop 13 (memory ctx)) = drop 13 (memory ctx)"
    using len by simp
  moreover have "length (?vals @ drop 13 (memory ctx)) = max 13 (length (memory ctx))"
    using len by (simp add: max_def)
  moreover have "run_frame ctx tick_label_index keys delta_ms disable_log =
     program_loop disable_log
       ((update_reserved_memory ctx keys delta_ms)\<lparr>program_counter := tick_label_index\<rparr>)"
    by (simp add: run_frame_def start_program_thread_def)
  moreover have "run_start pd keys disable_log =
     (case ProgramContext pd (data_get pd) of
        Inl e \<Rightarrow> Some (Inl e)
      | Inr c \<Rightarrow>
          (case start pd of
             None \<Rightarrow> Some (Inr (Inr c))
           | Some index \<Rightarrow>
               map_option Inr
                 (program_loop disable_log
                    ((update_reserved_memory c keys 0)\<lparr>program_counter := index\<rparr>))))"
    by (simp add: run_start_def start_program_thread_def split: sum.splits option.splits)
  ultimately show ?thesis
    by (simp only: mem)
qed

section \<open>Properties of the assembler\<close>

lemma collect_label_step:
  "tok_name t = LABEL_NAME \<Longrightarrow>
   collect e st (t # ts) =
     collect e
       (if butlast (tok_value t) \<in> fst ` set (labels st)
        then st\<lparr>compiler_state := PROCEDURES,
                warnings := warnings st @ [LabelDeclaredTwice (butlast (tok_value t))]\<rparr>
        else st\<lparr>compiler_state := PROCEDURES,
                labels := labels st @ [(butlast (tok_value t), instruction_index st)]\<rparr>) ts"
  by (simp add: Let_def)

lemma collect_meta_step:
  "tok_name t = META_VARIABLE \<Longrightarrow>
   collect e st (t # ts) =
     (if compiler_state st \<noteq> META then Inl (AssemblerError MetaVariableOutsideHeader)
      else if drop 1 (tok_value t) \<notin> set META_VARIABLE_NAMES
      then Inl (AssemblerError (UnrecognizedMetaVariable (drop 1 (tok_value t))))
      else
        (case ts of
           [] \<Rightarrow> Inl (Raised e)
         | n # ts' \<Rightarrow>
             (case py_int (tok_value n) of
                None \<Rightarrow> Inl (Raised ValueError)
              | Some v \<Rightarrow>
                  collect e
                    (st\<lparr>output_meta := set_meta_variable (drop 1 (tok_value t)) v (output_meta st)\<rparr>)
                    ts')))"
  by simp

lemma collect_name_step:
  "tok_name t = NAME \<Longrightarrow>
   collect e st (t # ts) =
     (if tok_value t \<notin> set INSTRUCTIONS
      then Inl (AssemblerError (UnrecognizedInstruction (tok_value t)))
      else
        (case get_until_newline e ts of
           Inl x \<Rightarrow> Inl (Raised x)
         | Inr (instruction_args, rest) \<Rightarrow>
             if Some (length instruction_args) \<noteq> ARGUMENT_COUNT_LOOKUP (tok_value t)
             then Inl (AssemblerError
                        (WrongArgumentCount (tok_value t)
                           (the (ARGUMENT_COUNT_LOOKUP (tok_value t))) (length instruction_args)))
             else
               collect e
                 (st\<lparr>raw_instructions := raw_instructions st @ [(t, instruction_args)],
                     instruction_index := instruction_index st + 1\<rparr>)
                 rest))"
  by simp

lemma collect_skip_step:
  "tok_name t = COMMENT \<or> tok_name t = NEWLINE \<Longrightarrow> collect e st (t # ts) = collect e st ts"
  by auto

lemma collect_value_step:
  "tok_name t = NUMBER \<or> tok_name t = ADDRESS \<Longrightarrow>
   collect e st (t # ts) = Inl (AssemblerError ValueOutsideInstruction)"
  by auto

lemma collect_invariant:
  assumes run: "collect e st ts = Inr st'"
    and start: "P st"
    and meta_step: "\<And>s k v. P s \<Longrightarrow> compiler_state s = META \<Longrightarrow> k \<in> set META_VARIABLE_NAMES \<Longrightarrow>
            P (s\<lparr>output_meta := set_meta_variable k v (output_meta s)\<rparr>)"
    and twice_step: "\<And>s l. P s \<Longrightarrow> l \<in> fst ` set (labels s) \<Longrightarrow>
            P (s\<lparr>compiler_state := PROCEDURES, warnings := warnings s @ [LabelDeclaredTwice l]\<rparr>)"
    and label_step: "\<And>s l. P s \<Longrightarrow> l \<notin> fst ` set (labels s) \<Longrightarrow>
            P (s\<lparr>compiler_state := PROCEDURES, labels := labels s @ [(l, instruction_index s)]\<rparr>)"
    and ins_step: "\<And>s t args. P s \<Longrightarrow> tok_name t = NAME \<Longrightarrow> tok_value t \<in> set INSTRUCTIONS \<Longrightarrow>
            ARGUMENT_COUNT_LOOKUP (tok_value t) = Some (length args) \<Longrightarrow>
            P (s\<lparr>raw_instructions := raw_instructions s @ [(t, args)],
                 instruction_index := instruction_index s + 1\<rparr>)"
  shows "P st'"
  using run start
proof (induction e st ts rule: collect.induct)
  case (1 e st)
  then show ?case by (simp split: if_splits)
next
  case (2 e st t ts)
  show ?case
  proof (cases "tok_name t")
    case META_VARIABLE
    with "2.prems" obtain n ts' v where ts: "ts = n # ts'" and v: "py_int (tok_value n) = Some v"
      and st: "compiler_state st = META" and k: "drop 1 (tok_value t) \<in> set META_VARIABLE_NAMES"
      and run': "collect e (st\<lparr>output_meta := set_meta_variable (drop 1 (tok_value t)) v (output_meta st)\<rparr>) ts' = Inr st'"
      by (auto simp: collect_meta_step split: if_splits list.splits option.splits)
    show ?thesis
      using "2.IH"(1) [OF META_VARIABLE _ _ ts v run'] st k meta_step [OF "2.prems"(2) st k] by simp
  next
    case NUMBER
    with "2.prems" show ?thesis by (simp add: collect_value_step)
  next
    case ADDRESS
    with "2.prems" show ?thesis by (simp add: collect_value_step)
  next
    case LABEL_NAME
    let ?l = "butlast (tok_value t)"
    show ?thesis
    proof (cases "?l \<in> fst ` set (labels st)")
      case True
      with "2.prems"(1) LABEL_NAME
      have run': "collect e (st\<lparr>compiler_state := PROCEDURES, warnings := warnings st @ [LabelDeclaredTwice ?l]\<rparr>) ts = Inr st'"
        by (simp add: collect_label_step)
      show ?thesis
        using "2.IH"(2) [OF LABEL_NAME refl refl _ ] True run' twice_step [OF "2.prems"(2) True]
        by simp
    next
      case False
      with "2.prems"(1) LABEL_NAME
      have run': "collect e (st\<lparr>compiler_state := PROCEDURES, labels := labels st @ [(?l, instruction_index st)]\<rparr>) ts = Inr st'"
        by (simp add: collect_label_step)
      show ?thesis
        using "2.IH"(3) [OF LABEL_NAME refl refl _ ] False run' label_step [OF "2.prems"(2) False]
        by simp
    qed
  next
    case NAME
    with "2.prems"(1) obtain args rest where ins: "tok_value t \<in> set INSTRUCTIONS"
      and got: "get_until_newline e ts = Inr (args, rest)"
      and cnt: "ARGUMENT_COUNT_LOOKUP (tok_value t) = Some (length args)"
      and run': "collect e (st\<lparr>raw_instructions := raw_instructions st @ [(t, args)],
                     instruction_index := instruction_index st + 1\<rparr>) rest = Inr st'"
      by (auto simp: collect_name_step split: if_splits sum.splits)
    show ?thesis
      using "2.IH"(4) [OF NAME _ got refl _ run'] ins cnt ins_step [OF "2.prems"(2) NAME ins cnt]
      by simp
  next
    case COMMENT
    with "2.prems" "2.IH"(5) show ?thesis by (simp add: collect_skip_step)
  next
    case NEWLINE
    with "2.prems" "2.IH"(6) show ?thesis by (simp add: collect_skip_step)
  qed
qed


lemma collect_keeps_arity:
  assumes "collect e st ts = Inr st'"
    and "list_all (\<lambda>(t, args). ARGUMENT_COUNT_LOOKUP (tok_value t) = Some (length args)) (raw_instructions st)"
  shows "list_all (\<lambda>(t, args). ARGUMENT_COUNT_LOOKUP (tok_value t) = Some (length args)) (raw_instructions st')"
  using assms by (rule collect_invariant) simp_all


lemma collect_keeps_labels:
  assumes "collect e st ts = Inr st'"
    and "map_of (labels st) l = Some i"
  shows "map_of (labels st') l = Some i"
  using assms
proof (rule collect_invariant)
  fix s :: collected and l'
  assume "map_of (labels s) l = Some i" and "l' \<notin> fst ` set (labels s)"
  then show "map_of (labels (s\<lparr>compiler_state := PROCEDURES, labels := labels s @ [(l', instruction_index s)]\<rparr>)) l
      = Some i"
    by (simp add: map_add_Some_iff)
qed simp_all

lemma parse_argument_tokens_all2:
  "parse_argument_tokens ts lbls = Inr as \<Longrightarrow>
   list_all2 (\<lambda>a t. parse_argument_token t lbls = Inr a) as ts"
  by (induction ts arbitrary: as) (auto split: sum.splits)

lemma resolve_all2:
  "resolve lbls debug raws = Inr (ins, ws) \<Longrightarrow>
   list_all2 (\<lambda>i (t, args). ins_name i = tok_value t \<and>
                list_all2 (\<lambda>a tk. parse_argument_token tk lbls = Inr a) (ins_args i) args) ins raws"
proof (induction raws arbitrary: ins ws)
  case Nil
  then show ?case by simp
next
  case (Cons raw raws)
  obtain t args where raw: "raw = (t, args)" by (cases raw)
  from Cons.prems raw obtain as ins' ws' where
    as: "parse_argument_tokens args lbls = Inr as"
    and rest: "resolve lbls debug raws = Inr (ins', ws')"
    and ins: "ins = \<lparr>ins_name = tok_value t, ins_args = as,
                     ins_line = (if debug then Some (int (tok_lineno t) - 1) else None)\<rparr> # ins'"
    by (auto split: sum.splits list.splits)
  show ?case
    using Cons.IH [OF rest] parse_argument_tokens_all2 [OF as] raw ins by simp
qed

lemma parse_argument_tokens_undefined:
  "a \<in> set ts \<Longrightarrow> tok_name a = NAME \<Longrightarrow> map_of lbls (tok_value a) = None \<Longrightarrow>
   \<exists>x. parse_argument_tokens ts lbls = Inl x"
  by (induction ts) (auto simp: parse_argument_token_def split: sum.splits option.splits)

lemma resolve_undefined:
  "(t, args) \<in> set raws \<Longrightarrow> a \<in> set args \<Longrightarrow> tok_name a = NAME \<Longrightarrow>
   map_of lbls (tok_value a) = None \<Longrightarrow> \<exists>x. resolve lbls debug raws = Inl x"
proof (induction raws)
  case Nil
  then show ?case by simp
next
  case (Cons raw raws)
  show ?case
  proof (cases "raw = (t, args)")
    case True
    then show ?thesis
      using parse_argument_tokens_undefined [OF Cons.prems(2-4)] by auto
  next
    case False
    then obtain x where x: "resolve lbls debug raws = Inl x"
      using Cons by auto
    obtain t' args' where raw: "raw = (t', args')" by (cases raw)
    show ?thesis
      unfolding raw using x by (cases debug) (simp_all split: sum.splits list.splits)
  qed
qed

text \<open>
  Claim C1 as stated fails. The machine decodes every operand of an instruction, the first one
  too, so \<open>mov $5 10\<close> writes 10 to the cell whose index is the value of cell 5, which is cell
  0, and \<open>mov $6 $5\<close> then writes the value of cell 5, which is 0, to cell 0: the run ends with
  every cell at 0, cells 5 and 6 included.
\<close>

theorem C1_mov_address_destination_counterexample:
  "assemble_source (''mov $5 10'' @ [newline] @ ''mov $6 $5'') False =
     Inr (example_program [instr ''mov'' [StrArg ''$5'', IntArg 10],
                           instr ''mov'' [StrArg ''$6'', StrArg ''$5'']], [TickNotFound]) \<and>
   ProgramContext (example_program [instr ''mov'' [StrArg ''$5'', IntArg 10],
                                    instr ''mov'' [StrArg ''$6'', StrArg ''$5'']]) None =
     Inr (example_context [instr ''mov'' [StrArg ''$5'', IntArg 10],
                           instr ''mov'' [StrArg ''$6'', StrArg ''$5'']] 0) \<and>
   start_program_thread
        (example_context [instr ''mov'' [StrArg ''$5'', IntArg 10],
                          instr ''mov'' [StrArg ''$6'', StrArg ''$5'']] 0) 0 False =
     Some (Inr (example_context [instr ''mov'' [StrArg ''$5'', IntArg 10],
                                 instr ''mov'' [StrArg ''$6'', StrArg ''$5'']] 2)) \<and>
   memory (example_context [instr ''mov'' [StrArg ''$5'', IntArg 10],
                            instr ''mov'' [StrArg ''$6'', StrArg ''$5'']] 2) = replicate 128 0"
proof -
  let ?ins = "[instr ''mov'' [StrArg ''$5'', IntArg 10], instr ''mov'' [StrArg ''$6'', StrArg ''$5'']]"
  let ?c0 = "example_context ?ins 0"
  let ?c1 = "(example_context ?ins 1)\<lparr>memory := (replicate 128 0)[0 := 10]\<rparr>"
  let ?c2 = "example_context ?ins 2"
  have asm: "assemble_source (''mov $5 10'' @ [newline] @ ''mov $6 $5'') False =
     Inr (example_program ?ins, [TickNotFound])"
    by code_simp
  have ctx: "ProgramContext (example_program ?ins) None = Inr ?c0"
    by code_simp
  have "program_loop False ?c0 = program_loop False ?c1"
    by (rule program_loop_step) code_simp+
  also have "\<dots> = program_loop False ?c2"
    by (rule program_loop_step) code_simp+
  also have "\<dots> = Some (Inr ?c2)"
    by (rule program_loop_done) code_simp
  finally have "start_program_thread ?c0 0 False = Some (Inr ?c2)"
    by (simp add: start_program_thread_def example_context_def)
  with asm ctx show ?thesis by (simp add: example_context_def)
qed

text \<open>
  Claim C1, amended. The destination of \<open>mov\<close> is written as a literal index: the program
  \<open>mov 5 10\<close> followed by \<open>mov 6 $5\<close> assembles (with two warnings for the writes below cell
  12 and one for the missing \<open>tick\<close> label) and, run from index 0 on the zero-filled memory of
  128 cells, ends with cell 5 and cell 6 at 10 and every other cell at 0.
\<close>

theorem C1_mov_literal_destination:
  "assemble_source (''mov 5 10'' @ [newline] @ ''mov 6 $5'') False =
     Inr (example_program [instr ''mov'' [IntArg 5, IntArg 10],
                           instr ''mov'' [IntArg 6, StrArg ''$5'']],
          [ReservedAssignment, ReservedAssignment, TickNotFound]) \<and>
   ProgramContext (example_program [instr ''mov'' [IntArg 5, IntArg 10],
                                    instr ''mov'' [IntArg 6, StrArg ''$5'']]) None =
     Inr (example_context [instr ''mov'' [IntArg 5, IntArg 10],
                           instr ''mov'' [IntArg 6, StrArg ''$5'']] 0) \<and>
   start_program_thread
        (example_context [instr ''mov'' [IntArg 5, IntArg 10],
                          instr ''mov'' [IntArg 6, StrArg ''$5'']] 0) 0 False =
     Some (Inr ((example_context [instr ''mov'' [IntArg 5, IntArg 10],
                                  instr ''mov'' [IntArg 6, StrArg ''$5'']] 2)
                \<lparr>memory := (replicate 128 0)[5 := 10, 6 := 10]\<rparr>))"
proof -
  let ?ins = "[instr ''mov'' [IntArg 5, IntArg 10], instr ''mov'' [IntArg 6, StrArg ''$5'']]"
  let ?c0 = "example_context ?ins 0"
  let ?c1 = "(example_context ?ins 1)\<lparr>memory := (replicate 128 0)[5 := 10]\<rparr>"
  let ?c2 = "(example_context ?ins 2)\<lparr>memory := (replicate 128 0)[5 := 10, 6 := 10]\<rparr>"
  have asm: "assemble_source (''mov 5 10'' @ [newline] @ ''mov 6 $5'') False =
     Inr (example_program ?ins, [ReservedAssignment, ReservedAssignment, TickNotFound])"
    by code_simp
  have ctx: "ProgramContext (example_program ?ins) None = Inr ?c0"
    by code_simp
  have "program_loop False ?c0 = program_loop False ?c1"
    by (rule program_loop_step) code_simp+
  also have "\<dots> = program_loop False ?c2"
    by (rule program_loop_step) code_simp+
  also have "\<dots> = Some (Inr ?c2)"
    by (rule program_loop_done) code_simp
  finally have "start_program_thread ?c0 0 False = Some (Inr ?c2)"
    by (simp add: start_program_thread_def example_context_def)
  with asm ctx show ?thesis by simp
qed

lemma ARGUMENT_COUNT_LOOKUP_table:
  "ARGUMENT_COUNT_LOOKUP =
     map_of [(''mov'', 2), (''movp'', 2), (''add'', 3), (''sub'', 3), (''mul'', 3), (''div'', 3),
             (''mod'', 3), (''less'', 3), (''equal'', 3), (''not'', 2), (''jmp'', 2),
             (''color'', 3), (''point'', 2), (''line'', 4), (''rect'', 4), (''log'', 1)]"
  by (simp add: ARGUMENT_COUNT_LOOKUP_def INSTRUCTIONS_def ARGUMENT_COUNTS_def)

lemma list_all_from_all2:
  "list_all2 P xs ys \<Longrightarrow> list_all Q ys \<Longrightarrow> (\<And>x y. P x y \<Longrightarrow> Q y \<Longrightarrow> R x) \<Longrightarrow> list_all R xs"
  by (induction xs ys rule: list_all2_induct) auto

lemma assemble_tokens_arity:
  assumes "assemble_tokens toks src state debug = Inr (pd, ws)"
  shows "list_all (\<lambda>i. ARGUMENT_COUNT_LOOKUP (ins_name i) = Some (length (ins_args i))) (instructions pd)"
proof -
  from assms obtain c ins ws' where
    c: "collect (snd toks) (initial_collected state) (fst toks) = Inr c"
    and r: "resolve (labels c) debug (raw_instructions c) = Inr (ins, ws')"
    and pd: "instructions pd = ins"
    by (auto simp: assemble_tokens_def split: sum.splits)
  have raws: "list_all (\<lambda>(t, args). ARGUMENT_COUNT_LOOKUP (tok_value t) = Some (length args))
                (raw_instructions c)"
    using c by (rule collect_keeps_arity) (simp add: initial_collected_def)
  have "list_all2 (\<lambda>i (t, args). ins_name i = tok_value t \<and>
                list_all2 (\<lambda>a tk. parse_argument_token tk (labels c) = Inr a) (ins_args i) args)
          ins (raw_instructions c)"
    using r by (rule resolve_all2)
  then have "list_all2 (\<lambda>i (t, args). ins_name i = tok_value t \<and> length (ins_args i) = length args)
          ins (raw_instructions c)"
    by (rule list_all2_mono) (auto dest: list_all2_lengthD)
  then have "list_all (\<lambda>i. ARGUMENT_COUNT_LOOKUP (ins_name i) = Some (length (ins_args i))) ins"
    using raws by (rule list_all_from_all2) auto
  with pd show ?thesis by simp
qed

text \<open>
  Claim C5. Every instruction of a program that \<open>assemble_tokens\<close> returns has as many
  operands as \<open>ARGUMENT_COUNT_LOOKUP\<close> gives for its name. When the tokens collected up to the
  end of the line are not that many, the assembly ends with the error that names the expected
  and the actual count, so no instruction is built. The table is: 2 for \<open>mov\<close>, \<open>movp\<close>,
  \<open>not\<close>, \<open>jmp\<close>, \<open>point\<close>; 3 for \<open>add\<close>, \<open>sub\<close>, \<open>mul\<close>, \<open>div\<close>, \<open>mod\<close>, \<open>less\<close>, \<open>equal\<close>,
  \<open>color\<close>; 4 for \<open>line\<close>, \<open>rect\<close>; 1 for \<open>log\<close>.
\<close>

theorem C5_operand_count_matches_table:
  "(assemble_tokens toks src state debug = Inr (pd, ws) \<longrightarrow>
      list_all (\<lambda>i. ARGUMENT_COUNT_LOOKUP (ins_name i) = Some (length (ins_args i)))
        (instructions pd)) \<and>
   (tok_name t = NAME \<and> tok_value t \<in> set INSTRUCTIONS \<and>
    get_until_newline e ts = Inr (args, rest) \<and>
    ARGUMENT_COUNT_LOOKUP (tok_value t) \<noteq> Some (length args) \<longrightarrow>
      collect e st (t # ts) =
        Inl (AssemblerError (WrongArgumentCount (tok_value t)
               (the (ARGUMENT_COUNT_LOOKUP (tok_value t))) (length args)))) \<and>
   map ARGUMENT_COUNT_LOOKUP [''mov'', ''movp'', ''not'', ''jmp'', ''point''] = [Some 2, Some 2, Some 2, Some 2, Some 2] \<and>
   map ARGUMENT_COUNT_LOOKUP [''add'', ''sub'', ''mul'', ''div'', ''mod'', ''less'', ''equal'', ''color'']
     = [Some 3, Some 3, Some 3, Some 3, Some 3, Some 3, Some 3, Some 3] \<and>
   map ARGUMENT_COUNT_LOOKUP [''line'', ''rect''] = [Some 4, Some 4] \<and>
   ARGUMENT_COUNT_LOOKUP ''log'' = Some 1"
proof -
  have "tok_name t = NAME \<and> tok_value t \<in> set INSTRUCTIONS \<and>
    get_until_newline e ts = Inr (args, rest) \<and>
    ARGUMENT_COUNT_LOOKUP (tok_value t) \<noteq> Some (length args) \<longrightarrow>
      collect e st (t # ts) =
        Inl (AssemblerError (WrongArgumentCount (tok_value t)
               (the (ARGUMENT_COUNT_LOOKUP (tok_value t))) (length args)))"
    by (auto simp: collect_name_step)
  moreover have "map ARGUMENT_COUNT_LOOKUP [''mov'', ''movp'', ''not'', ''jmp'', ''point''] = [Some 2, Some 2, Some 2, Some 2, Some 2]"
    by (simp add: ARGUMENT_COUNT_LOOKUP_table)
  moreover have "map ARGUMENT_COUNT_LOOKUP [''add'', ''sub'', ''mul'', ''div'', ''mod'', ''less'', ''equal'', ''color'']
     = [Some 3, Some 3, Some 3, Some 3, Some 3, Some 3, Some 3, Some 3]"
    by (simp add: ARGUMENT_COUNT_LOOKUP_table)
  moreover have "map ARGUMENT_COUNT_LOOKUP [''line'', ''rect''] = [Some 4, Some 4]"
    by (simp add: ARGUMENT_COUNT_LOOKUP_table)
  moreover have "ARGUMENT_COUNT_LOOKUP ''log'' = Some 1"
    by (simp add: ARGUMENT_COUNT_LOOKUP_table)
  ultimately show ?thesis
    using assemble_tokens_arity [of toks src state debug pd ws] by blast
qed

theorem C5_operand_count_matches_table_witness:
  "assemble_tokens (lexer_lex (''add 20 $21 3'' @ [newline])) [''add 20 $21 3''] META False =
     Inr (example_program [instr ''add'' [IntArg 20, StrArg ''$21'', IntArg 3]], [TickNotFound]) \<and>
   list_all (\<lambda>i. ARGUMENT_COUNT_LOOKUP (ins_name i) = Some (length (ins_args i)))
     [instr ''add'' [IntArg 20, StrArg ''$21'', IntArg 3]] \<and>
   collect StopIteration (initial_collected META)
     [tok NAME ''add'' 1, tok NUMBER ''20'' 1, tok ADDRESS ''$21'' 1, tok NEWLINE [newline] 1] =
     Inl (AssemblerError (WrongArgumentCount ''add'' 3 2))"
  using C5_operand_count_matches_table [where toks = "lexer_lex (''add 20 $21 3'' @ [newline])"
      and src = "[''add 20 $21 3'']" and state = META and debug = False
      and pd = "example_program [instr ''add'' [IntArg 20, StrArg ''$21'', IntArg 3]]"
      and ws = "[TickNotFound]"
      and t = "tok NAME ''add'' 1"
      and e = StopIteration
      and ts = "[tok NUMBER ''20'' 1, tok ADDRESS ''$21'' 1, tok NEWLINE [newline] 1]"
      and args = "[tok NUMBER ''20'' 1, tok ADDRESS ''$21'' 1]" and rest = "[]"
      and st = "initial_collected META"]
  by code_simp




lemma collect_label_is_kept:
  assumes l: "tok_name l = LABEL_NAME" and run: "collect e s (l # ts) = Inr c"
  shows "map_of (labels c) (butlast (tok_value l)) =
           Some (case map_of (labels s) (butlast (tok_value l)) of
                   None \<Rightarrow> instruction_index s
                 | Some i \<Rightarrow> i)"
proof -
  let ?n = "butlast (tok_value l)"
  let ?s = "if ?n \<in> fst ` set (labels s)
        then s\<lparr>compiler_state := PROCEDURES, warnings := warnings s @ [LabelDeclaredTwice ?n]\<rparr>
        else s\<lparr>compiler_state := PROCEDURES, labels := labels s @ [(?n, instruction_index s)]\<rparr>"
  have run': "collect e ?s ts = Inr c"
    using run collect_label_step [OF l, of e s ts] by simp
  have "map_of (labels ?s) ?n =
          Some (case map_of (labels s) ?n of None \<Rightarrow> instruction_index s | Some i \<Rightarrow> i)"
  proof (cases "map_of (labels s) ?n")
    case None
    then have "?n \<notin> fst ` set (labels s)" by (simp add: map_of_eq_None_iff)
    with None show ?thesis by (simp add: map_add_def)
  next
    case (Some i)
    then have "?n \<in> fst ` set (labels s)" by (metis map_of_eq_None_iff option.distinct(1))
    with Some show ?thesis by simp
  qed
  with run' show ?thesis by (rule collect_keeps_labels)
qed

lemma assemble_tokens_names:
  assumes c: "collect (snd toks) (initial_collected state) (fst toks) = Inr c"
    and k: "k < length (raw_instructions c)"
    and j: "j < length (snd (raw_instructions c ! k))"
    and name: "tok_name (snd (raw_instructions c ! k) ! j) = NAME"
  shows "case map_of (labels c) (tok_value (snd (raw_instructions c ! k) ! j)) of
           None \<Rightarrow> \<exists>x. assemble_tokens toks src state debug = Inl x
         | Some i \<Rightarrow>
             (\<forall>pd ws. assemble_tokens toks src state debug = Inr (pd, ws) \<longrightarrow>
                length (ins_args (instructions pd ! k)) = length (snd (raw_instructions c ! k)) \<and>
                ins_args (instructions pd ! k) ! j = IntArg i)"
proof (cases "map_of (labels c) (tok_value (snd (raw_instructions c ! k) ! j))")
  case None
  obtain t args where raw: "raw_instructions c ! k = (t, args)" by (cases "raw_instructions c ! k")
  then have "(t, args) \<in> set (raw_instructions c)" using k by (metis nth_mem)
  moreover have "args ! j \<in> set args" using j raw by simp
  ultimately obtain x where "resolve (labels c) debug (raw_instructions c) = Inl x"
    using resolve_undefined [of t args "raw_instructions c" "args ! j" "labels c" debug] name None raw
    by auto
  then have "assemble_tokens toks src state debug = Inl x"
    using c by (simp add: assemble_tokens_def)
  with None show ?thesis by auto
next
  case (Some i)
  have "length (ins_args (instructions pd ! k)) = length (snd (raw_instructions c ! k)) \<and>
        ins_args (instructions pd ! k) ! j = IntArg i"
    if ok: "assemble_tokens toks src state debug = Inr (pd, ws)" for pd ws
  proof -
    from ok c obtain ws' where r: "resolve (labels c) debug (raw_instructions c) = Inr (instructions pd, ws')"
      by (auto simp: assemble_tokens_def split: sum.splits)
    have all2: "list_all2 (\<lambda>i (t, args). ins_name i = tok_value t \<and>
                list_all2 (\<lambda>a tk. parse_argument_token tk (labels c) = Inr a) (ins_args i) args)
          (instructions pd) (raw_instructions c)"
      using r by (rule resolve_all2)
    obtain t args where raw: "raw_instructions c ! k = (t, args)" by (cases "raw_instructions c ! k")
    have args: "list_all2 (\<lambda>a tk. parse_argument_token tk (labels c) = Inr a)
            (ins_args (instructions pd ! k)) args"
      using list_all2_nthD2 [OF all2 k] raw by simp
    then have len: "length (ins_args (instructions pd ! k)) = length args"
      by (rule list_all2_lengthD)
    have "parse_argument_token (args ! j) (labels c) = Inr (ins_args (instructions pd ! k) ! j)"
      using list_all2_nthD2 [OF args] j raw by simp
    then have "ins_args (instructions pd ! k) ! j = IntArg i"
      using name Some raw by (simp add: parse_argument_token_def)
    with len raw show ?thesis by simp
  qed
  with Some show ?thesis by simp
qed

text \<open>
  Claim C7. A label that the first loop meets, in whatever state and after however many
  instructions, is in the table at the end of the loop, with the instruction index of its first
  declaration. The operands are resolved against that final table: a \<open>NAME\<close> operand whose text
  is in the table becomes the integer index of the label in every program that comes out, and
  when its text is not in the table no program comes out.
\<close>

theorem C7_labels_visible_everywhere:
  "(tok_name l = LABEL_NAME \<and> collect e s (l # ts) = Inr c \<longrightarrow>
      map_of (labels c) (butlast (tok_value l)) =
        Some (case map_of (labels s) (butlast (tok_value l)) of
                None \<Rightarrow> instruction_index s
              | Some i \<Rightarrow> i)) \<and>
   (collect (snd toks) (initial_collected state) (fst toks) = Inr c' \<and>
    k < length (raw_instructions c') \<and> j < length (snd (raw_instructions c' ! k)) \<and>
    tok_name (snd (raw_instructions c' ! k) ! j) = NAME \<longrightarrow>
      (case map_of (labels c') (tok_value (snd (raw_instructions c' ! k) ! j)) of
         None \<Rightarrow> \<exists>x. assemble_tokens toks src state debug = Inl x
       | Some i \<Rightarrow>
           (\<forall>pd ws. assemble_tokens toks src state debug = Inr (pd, ws) \<longrightarrow>
              length (ins_args (instructions pd ! k)) = length (snd (raw_instructions c' ! k)) \<and>
              ins_args (instructions pd ! k) ! j = IntArg i)))"
  using collect_label_is_kept [of l e s ts c] assemble_tokens_names [of toks state c' k j src debug]
  by blast

theorem C7_labels_visible_everywhere_witness:
  "collect StopIteration
     ((initial_collected META)\<lparr>raw_instructions :=
        [(tok NAME ''jmp'' 1, [tok NAME ''end'' 1, tok NUMBER ''1'' 1])], instruction_index := 1\<rparr>)
     [tok LABEL_NAME ''end:'' 2, tok NEWLINE [newline] 2] =
   Inr ((initial_collected META)\<lparr>raw_instructions :=
        [(tok NAME ''jmp'' 1, [tok NAME ''end'' 1, tok NUMBER ''1'' 1])], instruction_index := 1,
        compiler_state := PROCEDURES, labels := [(''end'', 1)]\<rparr>) \<and>
   assemble_tokens (lexer_lex (''jmp end 1'' @ [newline] @ ''end:'' @ [newline]))
     [''jmp end 1'', ''end:''] META False =
   Inr (example_program [instr ''jmp'' [IntArg 1, IntArg 1]], [TickNotFound]) \<and>
   assemble_tokens (lexer_lex (''jmp nowhere 1'' @ [newline])) [''jmp nowhere 1''] META False =
   Inl (AssemblerError (UndefinedLabel ''nowhere''))"
proof -
  let ?jmp = "\<lambda>n. (tok NAME ''jmp'' 1, [tok NAME n 1, tok NUMBER ''1'' 1])"
  let ?s = "(initial_collected META)\<lparr>raw_instructions := [?jmp ''end''], instruction_index := 1\<rparr>"
  let ?c = "(initial_collected META)\<lparr>raw_instructions := [?jmp ''end''], instruction_index := 1,
        compiler_state := PROCEDURES, labels := [(''end'', 1)]\<rparr>"
  let ?c' = "(initial_collected META)\<lparr>raw_instructions := [?jmp ''nowhere''], instruction_index := 1\<rparr>"
  have a: "collect StopIteration ?s [tok LABEL_NAME ''end:'' 2, tok NEWLINE [newline] 2] = Inr ?c"
    by code_simp
  have b: "collect (snd (lexer_lex (''jmp end 1'' @ [newline] @ ''end:'' @ [newline]))) (initial_collected META)
             (fst (lexer_lex (''jmp end 1'' @ [newline] @ ''end:'' @ [newline]))) = Inr ?c"
    by code_simp
  have b': "collect (snd (lexer_lex (''jmp nowhere 1'' @ [newline]))) (initial_collected META)
             (fst (lexer_lex (''jmp nowhere 1'' @ [newline]))) = Inr ?c'"
    by code_simp
  have r: "assemble_tokens (lexer_lex (''jmp end 1'' @ [newline] @ ''end:'' @ [newline]))
     [''jmp end 1'', ''end:''] META False =
     Inr (example_program [instr ''jmp'' [IntArg 1, IntArg 1]], [TickNotFound])"
    by code_simp
  have r': "assemble_tokens (lexer_lex (''jmp nowhere 1'' @ [newline])) [''jmp nowhere 1''] META False =
     Inl (AssemblerError (UndefinedLabel ''nowhere''))"
    by code_simp
  have visible: "map_of (labels ?c) ''end'' = Some 1"
    using C7_labels_visible_everywhere [where l = "tok LABEL_NAME ''end:'' 2" and e = StopIteration
        and s = ?s and ts = "[tok NEWLINE [newline] 2]" and c = ?c] a
    by (simp add: tok_def initial_collected_def)
  have resolved: "ins_args (instructions (example_program [instr ''jmp'' [IntArg 1, IntArg 1]]) ! 0) ! 0 = IntArg 1"
    using C7_labels_visible_everywhere [where toks = "lexer_lex (''jmp end 1'' @ [newline] @ ''end:'' @ [newline])"
        and state = META and c' = ?c and k = 0 and j = 0 and src = "[''jmp end 1'', ''end:'']"
        and debug = False] b r
    by (simp add: tok_def initial_collected_def)
  have fatal: "\<exists>x. assemble_tokens (lexer_lex (''jmp nowhere 1'' @ [newline])) [''jmp nowhere 1''] META False = Inl x"
    using C7_labels_visible_everywhere [where toks = "lexer_lex (''jmp nowhere 1'' @ [newline])"
        and state = META and c' = ?c' and k = 0 and j = 0 and src = "[''jmp nowhere 1'']"
        and debug = False] b'
    by (simp add: tok_def initial_collected_def)
  from a r r' visible resolved fatal show ?thesis by simp
qed

section \<open>Properties of the data loader\<close>































section \<open>Properties of the binary format\<close>

lemma length_be_bytes: "length (be_bytes k n) = k"
  by (induction k arbitrary: n) auto

lemma from_be_snoc: "from_be (bs @ [b]) = from_be bs * 256 + uint b"
  by (simp add: from_be_def)

lemma from_be_be_bytes: "0 \<le> n \<Longrightarrow> n < 256 ^ k \<Longrightarrow> from_be (be_bytes k n) = n"
proof (induction k arbitrary: n)
  case 0
  then show ?case by (simp add: from_be_def)
next
  case (Suc k)
  have "n div 256 < 256 ^ k"
    using Suc.prems by (simp add: div_less_iff_less_mult mult.commute)
  moreover have "0 \<le> n div 256" using Suc.prems by simp
  ultimately have "from_be (be_bytes k (n div 256)) = n div 256"
    by (rule Suc.IH [rotated])
  moreover have "uint (word_of_int (n mod 256) :: byte) = n mod 256"
    by (simp add: uint_word_of_int)
  ultimately show ?case
    by (simp add: from_be_snoc)
qed

lemma power_256: "(256::int) ^ k = 2 ^ (8 * k)"
  by (simp add: power_mult)

lemma parse_build_unsigned:
  assumes "build_unsigned k v = Inr bs"
  shows "parse_unsigned k (bs @ r) = Inr (v, r)"
proof -
  from assms have v: "0 \<le> v" "v < 2 ^ (8 * k)" and bs: "bs = be_bytes k v"
    by (auto simp: build_unsigned_def split: if_splits)
  have "from_be (be_bytes k v) = v"
    using v by (intro from_be_be_bytes) (simp_all add: power_256)
  then show ?thesis
    by (simp add: parse_unsigned_def bs length_be_bytes)
qed

lemma signed_wrap:
  fixes v h :: int
  assumes "- h \<le> v" and "v < h"
  shows "(if v mod (2 * h) \<ge> h then v mod (2 * h) - 2 * h else v mod (2 * h)) = v"
proof (cases "0 \<le> v")
  case True
  then have "v mod (2 * h) = v" using assms by simp
  then show ?thesis using assms by simp
next
  case False
  have "(v + 2 * h) mod (2 * h) = v + 2 * h"
    using assms False by (intro mod_pos_pos_trivial) arith+
  moreover have "(v + 2 * h) mod (2 * h) = v mod (2 * h)" by simp
  ultimately have "v mod (2 * h) = v + 2 * h" by simp
  then show ?thesis using assms False by simp
qed

lemma parse_build_signed:
  assumes "build_signed k v = Inr bs" and "0 < k"
  shows "parse_signed k (bs @ r) = Inr (v, r)"
proof -
  define h :: int where "h = 2 ^ (8 * k - 1)"
  have "8 * k = Suc (8 * k - 1)" using assms(2) by simp
  then have "(2::int) ^ (8 * k) = 2 ^ Suc (8 * k - 1)" by simp
  then have m: "(2::int) ^ (8 * k) = 2 * h" by (simp add: h_def)
  have hh: "(2::int) ^ (8 * k - Suc 0) = h" by (simp add: h_def)
  from assms have v: "- h \<le> v" "v < h" and bs: "bs = be_bytes k (v mod (2 * h))"
    by (auto simp: build_signed_def h_def m [unfolded h_def] split: if_splits)
  have "0 \<le> v mod (2 * h)" "v mod (2 * h) < 256 ^ k"
    using v by (simp_all add: power_256 m)
  then have u: "from_be (be_bytes k (v mod (2 * h))) = v mod (2 * h)"
    by (rule from_be_be_bytes)
  have "parse_signed k (bs @ r) =
          Inr (if v mod (2 * h) \<ge> h then v mod (2 * h) - 2 * h else v mod (2 * h), r)"
    by (simp add: parse_signed_def bs length_be_bytes u Let_def m hh)
  then show ?thesis
    using signed_wrap [OF v] by simp
qed

lemma cat_Inr:
  "cat a b = Inr bs \<Longrightarrow> \<exists>xs ys. a = Inr xs \<and> b = Inr ys \<and> bs = xs @ ys"
  by (auto simp: cat_def split: sum.splits)

lemma parse_build_items:
  assumes "build_items f xs = Inr bs"
    and "\<And>x b r. x \<in> set xs \<Longrightarrow> f x = Inr b \<Longrightarrow> p (b @ r) = Inr (g x, r)"
  shows "parse_Array (length xs) p (bs @ r) = Inr (map g xs, r)"
  using assms
proof (induction xs arbitrary: bs)
  case Nil
  then show ?case by simp
next
  case (Cons x xs)
  from Cons.prems(1) obtain b bs' where b: "f x = Inr b" and bs': "build_items f xs = Inr bs'"
    and bs: "bs = b @ bs'"
    by (auto dest: cat_Inr)
  have "p (b @ bs' @ r) = Inr (g x, bs' @ r)"
    using Cons.prems(2) [of x b "bs' @ r"] b by simp
  moreover have "parse_Array (length xs) p (bs' @ r) = Inr (map g xs, r)"
    using Cons.IH [OF bs'] Cons.prems(2) by simp
  ultimately show ?case by (simp add: bs)
qed

lemma parse_build_Array:
  assumes "build_Array count f xs = Inr bs"
    and "\<And>x b r. f x = Inr b \<Longrightarrow> p (b @ r) = Inr (x, r)"
  shows "parse_Array (nat count) p (bs @ r) = Inr (xs, r)"
proof -
  from assms(1) have count: "count = int (length xs)" and items: "build_items f xs = Inr bs"
    by (auto simp: build_Array_def split: if_splits)
  have "parse_Array (length xs) p (bs @ r) = Inr (map (\<lambda>x. x) xs, r)"
    using items assms(2) by (rule parse_build_items)
  then show ?thesis
    using count by simp
qed

lemma parse_build_G1Argument:
  assumes "build_G1Argument a = Inr bs"
  shows "parse_G1Argument (bs @ r) = Inr (a, r)"
proof -
  from assms obtain xs ys where t: "build_unsigned 1 (arg_type a) = Inr xs"
    and v: "build_signed 4 (arg_value a) = Inr ys" and bs: "bs = xs @ ys"
    by (auto simp: build_G1Argument_def dest: cat_Inr)
  show ?thesis
    using parse_build_unsigned [OF t, of "ys @ r"] parse_build_signed [OF v, of r]
    by (simp add: parse_G1Argument_def bs)
qed

lemma parse_build_G1Instruction:
  assumes "build_G1Instruction i = Inr bs"
  shows "parse_G1Instruction (bs @ r) = Inr (i, r)"
proof -
  from assms obtain xs ys n where ident: "build_unsigned 1 (g1_id i) = Inr xs"
    and n: "argument_count (g1_id i) = Inr n"
    and args: "build_Array (int n) build_G1Argument (g1_arguments i) = Inr ys"
    and bs: "bs = xs @ ys"
    by (auto simp: build_G1Instruction_def dest!: cat_Inr split: sum.splits)
  have "parse_Array (nat (int n)) parse_G1Argument (ys @ r) = Inr (g1_arguments i, r)"
    using args parse_build_G1Argument by (rule parse_build_Array)
  then show ?thesis
    using parse_build_unsigned [OF ident, of "ys @ r"] n
    by (simp add: parse_G1Instruction_def bs)
qed

lemma parse_build_G1DataEntry:
  assumes "build_G1DataEntry d = Inr bs"
  shows "parse_G1DataEntry (bs @ r) = Inr (d, r)"
proof -
  from assms obtain xs ys zs where a: "build_unsigned 4 (g1_address d) = Inr xs"
    and s: "build_unsigned 4 (g1_size d) = Inr ys"
    and v: "build_Array (g1_size d) (build_signed 4) (g1_values d) = Inr zs"
    and bs: "bs = xs @ ys @ zs"
    by (auto simp: build_G1DataEntry_def dest!: cat_Inr)
  have "parse_Array (nat (g1_size d)) (parse_signed 4) (zs @ r) = Inr (g1_values d, r)"
    using v by (rule parse_build_Array) (simp add: parse_build_signed)
  then show ?thesis
    using parse_build_unsigned [OF a, of "ys @ zs @ r"] parse_build_unsigned [OF s, of "zs @ r"]
    by (simp add: parse_G1DataEntry_def bs)
qed

lemma parse_build_G1BinaryFormat:
  assumes "build_G1BinaryFormat f = Inr bs"
  shows "parse_G1BinaryFormat (bs @ r) = Inr f"
proof -
  from assms obtain b1 b2 b3 b4 b5 b6 b7 b8 b9 b10 where
    m: "build_unsigned 4 (meta_memory (g1_meta f)) = Inr b1"
    and w: "build_unsigned 2 (meta_width (g1_meta f)) = Inr b2"
    and h: "build_unsigned 2 (meta_height (g1_meta f)) = Inr b3"
    and t: "build_unsigned 2 (meta_tickrate (g1_meta f)) = Inr b4"
    and tk: "build_signed 4 (g1_tick f) = Inr b5"
    and st: "build_signed 4 (g1_start f) = Inr b6"
    and n: "build_unsigned 4 (g1_instruction_count f) = Inr b7"
    and ins: "build_Array (g1_instruction_count f) build_G1Instruction (g1_instructions f) = Inr b8"
    and dn: "build_unsigned 4 (g1_data_entry_count f) = Inr b9"
    and ds: "build_Array (g1_data_entry_count f) build_G1DataEntry (g1_data f) = Inr b10"
    and bs: "bs = SIGNATURE @ b1 @ b2 @ b3 @ b4 @ b5 @ b6 @ b7 @ b8 @ b9 @ b10"
    unfolding build_G1BinaryFormat_def
    by (auto dest!: cat_Inr)
  have sig: "parse_Const SIGNATURE (SIGNATURE @ x) = Inr ((), x)" for x
    by (simp add: parse_Const_def)
  have pm: "parse_meta (b1 @ b2 @ b3 @ b4 @ x) = Inr (g1_meta f, x)" for x
    using parse_build_unsigned [OF m, of "b2 @ b3 @ b4 @ x"]
      parse_build_unsigned [OF w, of "b3 @ b4 @ x"]
      parse_build_unsigned [OF h, of "b4 @ x"]
      parse_build_unsigned [OF t, of x]
    by (simp add: parse_meta_def)
  have pins: "parse_Array (nat (g1_instruction_count f)) parse_G1Instruction (b8 @ x) =
                Inr (g1_instructions f, x)" for x
    using ins parse_build_G1Instruction by (rule parse_build_Array)
  have pds: "parse_Array (nat (g1_data_entry_count f)) parse_G1DataEntry (b10 @ x) =
                Inr (g1_data f, x)" for x
    using ds parse_build_G1DataEntry by (rule parse_build_Array)
  show ?thesis
    unfolding parse_G1BinaryFormat_def bs
    using sig [of "b1 @ b2 @ b3 @ b4 @ b5 @ b6 @ b7 @ b8 @ b9 @ b10 @ r"]
      pm [of "b5 @ b6 @ b7 @ b8 @ b9 @ b10 @ r"]
      parse_build_signed [OF tk, of "b6 @ b7 @ b8 @ b9 @ b10 @ r"]
      parse_build_signed [OF st, of "b7 @ b8 @ b9 @ b10 @ r"]
      parse_build_unsigned [OF n, of "b8 @ b9 @ b10 @ r"]
      pins [of "b9 @ b10 @ r"]
      parse_build_unsigned [OF dn, of "b10 @ r"]
      pds [of r]
    by simp
qed

lemma map_of_zip_upt:
  "map_of (zip xs [0..<length xs]) x = Some k \<Longrightarrow> k < length xs \<and> xs ! k = x"
  by (auto dest!: map_of_SomeD simp: in_set_zip)

lemma INSTRUCTION_IDS_index:
  assumes "INSTRUCTION_IDS name = Some k"
  shows "py_index INSTRUCTIONS (int k) = Some name"
  using map_of_zip_upt [OF assms [unfolded INSTRUCTION_IDS_def]]
  by (simp add: py_index_def)

lemma convert_format_argument:
  "format_argument a = Inr v \<Longrightarrow> convert_argument v = persisted_argument a"
  by (cases a)
     (auto simp: format_argument_def convert_argument_def persisted_argument_def
        ARG_TYPE_LITERAL_def ARG_TYPE_ADDRESS_def split: option.splits)

lemma convert_format_arguments:
  "format_arguments as = Inr vs \<Longrightarrow> map convert_argument vs = map persisted_argument as"
  by (induction as arbitrary: vs) (auto split: sum.splits simp: convert_format_argument)

lemma convert_format_instructions:
  "format_instructions is = Inr vs \<Longrightarrow>
   convert_instructions vs = Inr (map persisted_instruction is)"
proof (induction "is" arbitrary: vs)
  case Nil
  then show ?case by simp
next
  case (Cons i rest)
  from Cons.prems obtain v vs' where v: "format_instruction i = Inr v"
    and vs': "format_instructions rest = Inr vs'" and vs: "vs = v # vs'"
    by (auto split: sum.splits)
  from v obtain args k where args: "format_arguments (ins_args i) = Inr args"
    and k: "INSTRUCTION_IDS (ins_name i) = Some k"
    and v': "v = \<lparr>g1_id = int k, g1_arguments = args\<rparr>"
    by (auto simp: format_instruction_def split: sum.splits option.splits)
  show ?case
    using Cons.IH [OF vs'] INSTRUCTION_IDS_index [OF k] convert_format_arguments [OF args]
    by (simp add: vs v' persisted_instruction_def)
qed

lemma persisted_entry_sentinel:
  "(if (case x of None \<Rightarrow> - 1 | Some t \<Rightarrow> t) = - 1 then None
    else Some (case x of None \<Rightarrow> - 1 | Some t \<Rightarrow> t)) = persisted_entry x"
  by (cases x) (auto simp: persisted_entry_def)

lemma format_data_entry_back:
  "map (\<lambda>d. (nat (g1_address d), g1_values d)) (map format_data_entry entries) = entries"
  by (induction entries) (auto simp: format_data_entry_def)

lemma format_json_fields:
  assumes "format_json pd = Inr f"
  shows "g1_meta f = meta pd"
    and "(if g1_tick f = - 1 then None else Some (g1_tick f)) = persisted_entry (tick pd)"
    and "(if g1_start f = - 1 then None else Some (g1_start f)) = persisted_entry (start pd)"
    and "format_instructions (instructions pd) = Inr (g1_instructions f)"
    and "g1_data f = (case data pd of DataList entries \<Rightarrow> map format_data_entry entries | _ \<Rightarrow> [])"
    and "data pd \<noteq> DataNone"
  using assms
  by (auto simp: format_json_def persisted_entry_def split: sum.splits data_field.splits option.splits)

lemma decode_encode:
  assumes "encode pd = Inr bs"
  shows "map_sum (\<lambda>x. x) (\<lambda>q. q\<lparr>data_entry_count := None\<rparr>) (parse_to_program_data (bs @ r)) =
           Inr (persisted pd)"
proof -
  from assms obtain f where f: "format_json pd = Inr f" and b: "build_G1BinaryFormat f = Inr bs"
    by (auto simp: encode_def split: sum.splits)
  note fields = format_json_fields [OF f]
  have parsed: "parse_G1BinaryFormat (bs @ r) = Inr f"
    using b by (rule parse_build_G1BinaryFormat)
  have ins: "convert_instructions (g1_instructions f) = Inr (map persisted_instruction (instructions pd))"
    using fields(4) by (rule convert_format_instructions)
  have dat: "(if g1_data f = [] then DataAbsent
              else DataList (map (\<lambda>d. (nat (g1_address d), g1_values d)) (g1_data f))) =
             (case data pd of DataList (e # es) \<Rightarrow> DataList (e # es) | _ \<Rightarrow> DataAbsent)"
  proof (cases "data pd")
    case (DataList entries)
    then show ?thesis
      using fields(5) format_data_entry_back [of entries] by (cases entries) simp_all
  qed (simp_all add: fields(5))
  have "parse_to_program_data (bs @ r) =
      Inr \<lparr>meta = meta pd,
           instructions = map persisted_instruction (instructions pd),
           tick = persisted_entry (tick pd),
           start = persisted_entry (start pd),
           data = (case data pd of DataList (e # es) \<Rightarrow> DataList (e # es) | _ \<Rightarrow> DataAbsent),
           source = None,
           data_entry_count = (if g1_data f = [] then None else Some (g1_data_entry_count f))\<rparr>"
    unfolding parse_to_program_data_def parsed sum.case ins fields(1-3) dat ..
  then show ?thesis
    by (simp add: persisted_def)
qed

lemma build_unsigned_ok:
  "0 \<le> v \<Longrightarrow> v < 2 ^ (8 * k) \<Longrightarrow> \<exists>bs. build_unsigned k v = Inr bs"
  by (simp add: build_unsigned_def)

lemma build_uint32_ok: "uint32 v \<Longrightarrow> \<exists>bs. build_unsigned 4 v = Inr bs"
  by (simp add: build_unsigned_def uint32_def)

lemma build_uint16_ok: "uint16 v \<Longrightarrow> \<exists>bs. build_unsigned 2 v = Inr bs"
  by (simp add: build_unsigned_def uint16_def)

lemma build_int32_ok: "int32 v \<Longrightarrow> \<exists>bs. build_signed 4 v = Inr bs"
  by (simp add: build_signed_def int32_def)

lemma cat_ok: "\<exists>xs. a = Inr xs \<Longrightarrow> \<exists>ys. b = Inr ys \<Longrightarrow> \<exists>bs. cat a b = Inr bs"
  by (auto simp: cat_def)

lemma build_items_ok:
  "list_all (\<lambda>x. \<exists>b. f x = Inr b) xs \<Longrightarrow> \<exists>bs. build_items f xs = Inr bs"
  by (induction xs) (auto intro: cat_ok)

lemma build_Array_ok:
  "count = int (length xs) \<Longrightarrow> list_all (\<lambda>x. \<exists>b. f x = Inr b) xs \<Longrightarrow>
   \<exists>bs. build_Array count f xs = Inr bs"
  by (simp add: build_Array_def build_items_ok)

lemma known_instruction:
  assumes "ARGUMENT_COUNT_LOOKUP name = Some n"
  shows "\<exists>k. INSTRUCTION_IDS name = Some k \<and> int k < 256 \<and> argument_count (int k) = Inr n"
  using assms
  by (auto simp: ARGUMENT_COUNT_LOOKUP_def INSTRUCTION_IDS_def INSTRUCTIONS_def ARGUMENT_COUNTS_def
      argument_count_def py_index_def upt_rec split: if_splits)

lemma format_argument_ok:
  "valid_argument a \<Longrightarrow> \<exists>v. format_argument a = Inr v \<and> (\<exists>b. build_G1Argument v = Inr b)"
  by (cases a)
     (auto simp: valid_argument_def format_argument_def build_G1Argument_def ARG_TYPE_LITERAL_def
        ARG_TYPE_ADDRESS_def build_unsigned_def intro!: cat_ok build_int32_ok split: option.splits)

lemma format_arguments_ok:
  "list_all valid_argument as \<Longrightarrow>
   \<exists>vs. format_arguments as = Inr vs \<and> length vs = length as \<and>
        list_all (\<lambda>v. \<exists>b. build_G1Argument v = Inr b) vs"
proof (induction as)
  case Nil
  then show ?case by simp
next
  case (Cons a as)
  then obtain v vs where "format_argument a = Inr v" "\<exists>b. build_G1Argument v = Inr b"
    "format_arguments as = Inr vs" "length vs = length as"
    "list_all (\<lambda>v. \<exists>b. build_G1Argument v = Inr b) vs"
    using format_argument_ok [of a] by auto
  then show ?case by simp
qed

lemma format_instruction_ok:
  assumes "valid_instruction i"
  shows "\<exists>v. format_instruction i = Inr v \<and> (\<exists>b. build_G1Instruction v = Inr b)"
proof -
  from assms have cnt: "ARGUMENT_COUNT_LOOKUP (ins_name i) = Some (length (ins_args i))"
    and args: "list_all valid_argument (ins_args i)"
    by (simp_all add: valid_instruction_def)
  from known_instruction [OF cnt] obtain k where k: "INSTRUCTION_IDS (ins_name i) = Some k"
    and k256: "int k < 256" and n: "argument_count (int k) = Inr (length (ins_args i))"
    by auto
  from format_arguments_ok [OF args] obtain vs where vs: "format_arguments (ins_args i) = Inr vs"
    and len: "length vs = length (ins_args i)"
    and ok: "list_all (\<lambda>v. \<exists>b. build_G1Argument v = Inr b) vs"
    by auto
  have "format_instruction i = Inr \<lparr>g1_id = int k, g1_arguments = vs\<rparr>"
    by (simp add: format_instruction_def vs k)
  moreover have "\<exists>b. build_unsigned 1 (int k) = Inr b"
    using k256 by (simp add: build_unsigned_def)
  moreover have "\<exists>b. build_Array (int (length (ins_args i))) build_G1Argument vs = Inr b"
    using len ok by (intro build_Array_ok) simp_all
  ultimately show ?thesis
    by (auto simp: build_G1Instruction_def n intro!: cat_ok)
qed

lemma format_instructions_ok:
  "list_all valid_instruction is \<Longrightarrow>
   \<exists>vs. format_instructions is = Inr vs \<and> length vs = length is \<and>
        list_all (\<lambda>v. \<exists>b. build_G1Instruction v = Inr b) vs"
proof (induction "is")
  case Nil
  then show ?case by simp
next
  case (Cons i rest)
  then obtain v vs where "format_instruction i = Inr v" "\<exists>b. build_G1Instruction v = Inr b"
    "format_instructions rest = Inr vs" "length vs = length rest"
    "list_all (\<lambda>v. \<exists>b. build_G1Instruction v = Inr b) vs"
    using format_instruction_ok [of i] by auto
  then show ?case by simp
qed

lemma build_G1DataEntry_ok:
  assumes "valid_entry e"
  shows "\<exists>b. build_G1DataEntry (format_data_entry e) = Inr b"
proof -
  from assms have "list_all (\<lambda>x. \<exists>b. build_signed 4 x = Inr b) (snd e)"
    by (auto simp: valid_entry_def list_all_iff intro: build_int32_ok)
  then have "\<exists>b. build_Array (int (length (snd e))) (build_signed 4) (snd e) = Inr b"
    by (intro build_Array_ok) simp_all
  then show ?thesis
    using assms
    by (auto simp: build_G1DataEntry_def format_data_entry_def valid_entry_def
        intro!: cat_ok build_uint32_ok)
qed

lemma encode_ok:
  assumes "valid_program pd"
  shows "\<exists>bs. encode pd = Inr bs"
proof -
  from assms have m: "uint32 (meta_memory (meta pd))" "uint16 (meta_width (meta pd))"
      "uint16 (meta_height (meta pd))" "uint16 (meta_tickrate (meta pd))"
    and ix: "valid_index (tick pd)" "valid_index (start pd)"
    and n: "uint32 (int (length (instructions pd)))"
    and ins: "list_all valid_instruction (instructions pd)"
    and dat: "case data pd of DataAbsent \<Rightarrow> True | DataNone \<Rightarrow> False
              | DataList entries \<Rightarrow> uint32 (int (length entries)) \<and> list_all valid_entry entries"
    by (simp_all add: valid_program_def)
  from format_instructions_ok [OF ins] obtain vs where
    vs: "format_instructions (instructions pd) = Inr vs"
    and len: "length vs = length (instructions pd)"
    and ok: "list_all (\<lambda>v. \<exists>b. build_G1Instruction v = Inr b) vs"
    by auto
  define entries where "entries = (case data pd of DataList es \<Rightarrow> es | _ \<Rightarrow> [])"
  have es: "uint32 (int (length entries))" "list_all valid_entry entries"
    using dat by (auto simp: entries_def uint32_def split: data_field.splits)
  define f where "f = \<lparr>g1_meta = meta pd,
      g1_tick = (case tick pd of None \<Rightarrow> - 1 | Some t \<Rightarrow> t),
      g1_start = (case start pd of None \<Rightarrow> - 1 | Some t \<Rightarrow> t),
      g1_instruction_count = int (length (instructions pd)),
      g1_instructions = vs,
      g1_data_entry_count = int (length entries),
      g1_data = map format_data_entry entries\<rparr>"
  have f: "format_json pd = Inr f"
    using dat vs by (cases "data pd") (simp_all add: format_json_def entries_def f_def)
  have fm: "g1_meta f = meta pd"
    and ft: "g1_tick f = (case tick pd of None \<Rightarrow> - 1 | Some t \<Rightarrow> t)"
    and fs: "g1_start f = (case start pd of None \<Rightarrow> - 1 | Some t \<Rightarrow> t)"
    and fn: "g1_instruction_count f = int (length (instructions pd))"
    and fi: "g1_instructions f = vs"
    and fdn: "g1_data_entry_count f = int (length entries)"
    and fd: "g1_data f = map format_data_entry entries"
    by (simp_all add: f_def)
  have tick_ok: "\<exists>b. build_signed 4 (g1_tick f) = Inr b"
    using ix(1) by (auto simp: ft valid_index_def int32_def build_signed_def split: option.splits)
  have start_ok: "\<exists>b. build_signed 4 (g1_start f) = Inr b"
    using ix(2) by (auto simp: fs valid_index_def int32_def build_signed_def split: option.splits)
  have ins_ok: "\<exists>b. build_Array (g1_instruction_count f) build_G1Instruction (g1_instructions f) = Inr b"
    using len ok by (intro build_Array_ok) (simp_all add: fn fi)
  have "list_all (\<lambda>x. \<exists>b. build_G1DataEntry x = Inr b) (map format_data_entry entries)"
    using es(2) by (auto simp: list_all_iff intro: build_G1DataEntry_ok)
  then have data_ok: "\<exists>b. build_Array (g1_data_entry_count f) build_G1DataEntry (g1_data f) = Inr b"
    by (intro build_Array_ok) (simp_all add: fdn fd)
  have "\<exists>bs. build_G1BinaryFormat f = Inr bs"
    unfolding build_G1BinaryFormat_def
    using m n es(1) tick_ok start_ok ins_ok data_ok
    by (intro cat_ok build_uint32_ok build_uint16_ok) (simp_all add: fm fn fdn)
  then show ?thesis
    by (simp add: encode_def f)
qed

text \<open>
  Claim C2 as stated fails: the operand \<open>$05\<close>, which the assembler takes as it is written,
  comes back as \<open>$5\<close>, in a program without debug fields, data, \<open>tick\<close> or \<open>start\<close>.
\<close>

theorem C2_encode_then_decode_counterexample:
  "assemble_source ''mov 20 $05'' False =
     Inr (example_program [instr ''mov'' [IntArg 20, StrArg ''$05'']], [TickNotFound]) \<and>
   encode (example_program [instr ''mov'' [IntArg 20, StrArg ''$05'']]) =
     Inr [103, 49, 0, 0, 0, 128, 0, 100, 0, 100, 0, 60, 255, 255, 255, 255, 255, 255, 255, 255,
          0, 0, 0, 1, 0, 0, 0, 0, 0, 20, 1, 0, 0, 0, 5, 0, 0, 0, 0] \<and>
   parse_to_program_data
     [103, 49, 0, 0, 0, 128, 0, 100, 0, 100, 0, 60, 255, 255, 255, 255, 255, 255, 255, 255,
      0, 0, 0, 1, 0, 0, 0, 0, 0, 20, 1, 0, 0, 0, 5, 0, 0, 0, 0] =
     Inr (example_program [instr ''mov'' [IntArg 20, StrArg ''$5'']]) \<and>
   example_program [instr ''mov'' [IntArg 20, StrArg ''$5'']] \<noteq>
   example_program [instr ''mov'' [IntArg 20, StrArg ''$05'']]"
  by code_simp


text \<open>
  Claim C2, amended. The builder accepts every valid program, and whenever the encoding of a
  program succeeds, decoding the bytes (whatever follows them) gives, on the keys of the
  intermediate program, the program with: \<open>tick\<close> and \<open>start\<close> absent where they were absent or
  -1; the data absent where it was absent or empty; no source text and no line numbers; and
  every address operand replaced by \<open>$\<close> and the decimal digits of its integer.
\<close>

theorem C2_encode_then_decode:
  "(valid_program pd \<longrightarrow> (\<exists>bs. encode pd = Inr bs)) \<and>
   (encode pd = Inr bs \<longrightarrow>
      map_sum (\<lambda>x. x) (\<lambda>q. q\<lparr>data_entry_count := None\<rparr>) (parse_to_program_data (bs @ r)) =
        Inr (persisted pd))"
  using encode_ok [of pd] decode_encode [of pd bs r] by blast

theorem C2_encode_then_decode_witness:
  "valid_program example_debug_program \<and>
   encode example_debug_program =
     Inr [103, 49, 0, 0, 0, 128, 0, 100, 0, 100, 0, 60, 255, 255, 255, 255, 0, 0, 0, 0,
          0, 0, 0, 1, 0, 0, 0, 0, 0, 20, 1, 0, 0, 0, 5, 0, 0, 0, 1, 0, 0, 0, 20, 0, 0, 0, 2,
          0, 0, 0, 1, 255, 255, 255, 254] \<and>
   map_sum (\<lambda>x. x) (\<lambda>q. q\<lparr>data_entry_count := None\<rparr>)
     (parse_to_program_data
        [103, 49, 0, 0, 0, 128, 0, 100, 0, 100, 0, 60, 255, 255, 255, 255, 0, 0, 0, 0,
         0, 0, 0, 1, 0, 0, 0, 0, 0, 20, 1, 0, 0, 0, 5, 0, 0, 0, 1, 0, 0, 0, 20, 0, 0, 0, 2,
         0, 0, 0, 1, 255, 255, 255, 254]) =
     Inr \<lparr>meta = \<lparr>meta_memory = 128, meta_width = 100, meta_height = 100, meta_tickrate = 60\<rparr>,
          instructions = [instr ''mov'' [IntArg 20, StrArg ''$5'']],
          tick = None, start = Some 0, data = DataList [(20, [1, - 2])],
          source = None, data_entry_count = None\<rparr>"
proof -
  let ?bs = "[103, 49, 0, 0, 0, 128, 0, 100, 0, 100, 0, 60, 255, 255, 255, 255, 0, 0, 0, 0,
          0, 0, 0, 1, 0, 0, 0, 0, 0, 20, 1, 0, 0, 0, 5, 0, 0, 0, 1, 0, 0, 0, 20, 0, 0, 0, 2,
          0, 0, 0, 1, 255, 255, 255, 254] :: byte list"
  have v: "valid_program example_debug_program" by code_simp
  have e: "encode example_debug_program = Inr ?bs" by code_simp
  have p: "persisted example_debug_program =
      \<lparr>meta = \<lparr>meta_memory = 128, meta_width = 100, meta_height = 100, meta_tickrate = 60\<rparr>,
          instructions = [instr ''mov'' [IntArg 20, StrArg ''$5'']],
          tick = None, start = Some 0, data = DataList [(20, [1, - 2])],
          source = None, data_entry_count = None\<rparr>"
    by code_simp
  show ?thesis
    using C2_encode_then_decode [of example_debug_program ?bs "[]"] v e p by simp
qed

end
